theory Spec2Isabelle
  imports Main
begin

section \<open>Signature-transfer permits: typed data and hash\<close>

text \<open>
  A shallow embedding of \<^verbatim>\<open>src/signatureTransfer.ts\<close>: the bounds checks on a permit,
  the construction of the EIP-712 \<open>{domain, types, values}\<close> triple for a single and for
  a batch permit, with or without a witness, and the call of the typed-data hashing
  primitive.

  JavaScript passes objects by reference and \<^verbatim>\<open>Object.assign(target, source)\<close> writes
  into its target, so permit objects live in a store and the functions take a reference
  and the store and return the store they leave behind. A \<^verbatim>\<open>bigint\<close> is an \<open>int\<close>,
  an \<^verbatim>\<open>Address\<close> a string, a failed \<^verbatim>\<open>invariant\<close> the left injection of a sum.
\<close>

subsection \<open>Data model\<close>

type_synonym Address = string

type_synonym ref = nat

text \<open>One member \<^verbatim>\<open>{ name, type }\<close> of a struct declaration.\<close>

record field =
  name :: string
  type :: string

text \<open>
  \<^verbatim>\<open>TypedData\<close>, and the \<^verbatim>\<open>witnessType\<close> of a witness: an object used as a dictionary
  from type names to member lists. Only lookups and the set of keys are modelled, not
  the enumeration order of the keys.
\<close>

type_synonym TypedData = "string \<rightharpoonup> field list"

record 'w Witness =
  witness :: 'w
  witnessTypeName :: string
  witnessType :: TypedData

record TokenPermissions =
  token :: Address
  amount :: int

text \<open>
  \<^verbatim>\<open>PermitTransferFrom | PermitBatchTransferFrom\<close>: the two interfaces differ only in
  \<^verbatim>\<open>permitted\<close>, one struct or an array of them. The property \<^verbatim>\<open>witness\<close> is not
  declared by either interface; it is \<open>None\<close> on an object that does not have it.
\<close>

datatype permitted_value = Struct TokenPermissions | Array "TokenPermissions list"

record 'w permit =
  permitted :: permitted_value
  spender :: Address
  nonce :: int
  deadline :: int
  witness :: "'w option"

type_synonym 'w store = "ref \<Rightarrow> 'w permit"

text \<open>
  \<^verbatim>\<open>PermitTransferFromData\<close> and \<^verbatim>\<open>PermitBatchTransferFromData\<close>; \<open>values\<close> is a
  reference to a permit object.
\<close>

record 'd PermitTransferFromData =
  domain :: 'd
  types :: TypedData
  "values" :: ref

type_synonym 'd PermitBatchTransferFromData = "'d PermitTransferFromData"

text \<open>
  The argument object of \<^verbatim>\<open>hashTypedData\<close>. Its \<open>message\<close> is a fresh object,
  \<^verbatim>\<open>{ ...values }\<close>, holding the properties of the permit at the time of the call.
\<close>

record ('d, 'w) TypedDataDefinition =
  domain :: 'd
  types :: TypedData
  primaryType :: string
  message :: "'w permit"

text \<open>
  What a call throws. \<open>Error m\<close> is the JavaScript \<^verbatim>\<open>Error\<close> with message \<open>m\<close> that a
  failed \<^verbatim>\<open>invariant\<close> throws. \<open>TypeError\<close> is what the JavaScript runtime raises when
  \<^verbatim>\<open>getPermitBatchTransferData\<close> is called, against its declared parameter type, on a
  permit whose \<^verbatim>\<open>permitted\<close> has no \<^verbatim>\<open>forEach\<close>.
\<close>

datatype error = Error string | TypeError

subsection \<open>Constants\<close>

text \<open>
  Modelled from the spec: \<^verbatim>\<open>MaxSigDeadline\<close> of \<^verbatim>\<open>./constants\<close>, which is not among
  the sources. The specification gives the three bounds as "each a maximum
  unsigned-256-bit value". The general theorems below hold for any value of them.
\<close>

definition MaxSigDeadline :: int where
  "MaxSigDeadline = 2 ^ 256 - 1"

text \<open>
  Modelled from the spec: \<^verbatim>\<open>MaxUnorderedNonce\<close> of \<^verbatim>\<open>./constants\<close>, a maximum
  unsigned-256-bit value.
\<close>

definition MaxUnorderedNonce :: int where
  "MaxUnorderedNonce = 2 ^ 256 - 1"

text \<open>
  Modelled from the spec: \<^verbatim>\<open>MaxSignatureTransferAmount\<close> of \<^verbatim>\<open>./constants\<close>, a
  maximum unsigned-256-bit value.
\<close>

definition MaxSignatureTransferAmount :: int where
  "MaxSignatureTransferAmount = 2 ^ 256 - 1"

text \<open>The declarations at the head of the source file.\<close>

definition TOKEN_PERMISSIONS :: "field list" where
  "TOKEN_PERMISSIONS =
     [\<lparr>name = ''token'', type = ''address''\<rparr>,
      \<lparr>name = ''amount'', type = ''uint256''\<rparr>]"

definition PERMIT_TRANSFER_FROM_TYPES :: TypedData where
  "PERMIT_TRANSFER_FROM_TYPES =
     [''TokenPermissions'' \<mapsto> TOKEN_PERMISSIONS,
      ''PermitTransferFrom'' \<mapsto>
        [\<lparr>name = ''permitted'', type = ''TokenPermissions''\<rparr>,
         \<lparr>name = ''spender'', type = ''address''\<rparr>,
         \<lparr>name = ''nonce'', type = ''uint256''\<rparr>,
         \<lparr>name = ''deadline'', type = ''uint256''\<rparr>]]"

definition PERMIT_BATCH_TRANSFER_FROM_TYPES :: TypedData where
  "PERMIT_BATCH_TRANSFER_FROM_TYPES =
     [''TokenPermissions'' \<mapsto> TOKEN_PERMISSIONS,
      ''PermitBatchTransferFrom'' \<mapsto>
        [\<lparr>name = ''permitted'', type = ''TokenPermissions[]''\<rparr>,
         \<lparr>name = ''spender'', type = ''address''\<rparr>,
         \<lparr>name = ''nonce'', type = ''uint256''\<rparr>,
         \<lparr>name = ''deadline'', type = ''uint256''\<rparr>]]"

subsection \<open>Validation\<close>

text \<open>
  \<^verbatim>\<open>invariant(condition, message)\<close> of tiny-invariant, a dependency that is not among
  the sources; the model follows the library:
  \<^verbatim>\<open>
  var isProduction = process.env.NODE_ENV === 'production';
  var prefix = 'Invariant failed';
  function invariant(condition, message) {
    if (condition) { return; }
    if (isProduction) { throw new Error(prefix); }
    var provided = typeof message === 'function' ? message() : message;
    var value = provided ? "".concat(prefix, ": ").concat(provided) : prefix;
    throw new Error(value);
  }
  \<close>
  The build mode \<open>isProduction\<close> is fixed when the module is loaded, and is a parameter
  of every function that can fail. It is true in the bundle that the repository's build
  script produces (esbuild with \<^verbatim>\<open>bundle\<close> and \<^verbatim>\<open>minify\<close>, only viem external), and false
  when the module runs from its sources, as under the test runner. In a production
  build the message the caller passes is dropped. The messages here are string
  literals, so the \<^verbatim>\<open>typeof message === 'function'\<close> branch does not arise.
\<close>

definition prefix :: string where
  "prefix = ''Invariant failed''"

definition invariant :: "bool \<Rightarrow> bool \<Rightarrow> string \<Rightarrow> error + unit" where
  "invariant isProduction condition msg =
     (if condition then Inr ()
      else if isProduction then Inl (Error prefix)
      else Inl (Error (if msg \<noteq> [] then prefix @ '': '' @ msg else prefix)))"

definition validateTokenPermissions :: "bool \<Rightarrow> TokenPermissions \<Rightarrow> error + unit" where
  "validateTokenPermissions isProduction permissions =
     invariant isProduction (MaxSignatureTransferAmount \<ge> amount permissions)
       ''AMOUNT_OUT_OF_RANGE''"

text \<open>
  \<^verbatim>\<open>Array.prototype.forEach\<close> with a callback that may throw: the callback is applied
  to the elements from the left, and an exception ends the loop and is the outcome.
  The first component of the result lists the elements the callback has been applied
  to, in call order; the code has no such value, it records which calls were made.
\<close>

fun forEach :: "('a \<Rightarrow> error + unit) \<Rightarrow> 'a list \<Rightarrow> 'a list \<times> (error + unit)" where
  "forEach callbackfn [] = ([], Inr ())"
| "forEach callbackfn (x # xs) =
     (case callbackfn x of
        Inl e \<Rightarrow> ([x], Inl e)
      | Inr _ \<Rightarrow> (case forEach callbackfn xs of (calls, r) \<Rightarrow> (x # calls, r)))"

definition isPermitTransferFrom :: "'w permit \<Rightarrow> bool" where
  "isPermitTransferFrom p = (case permitted p of Array _ \<Rightarrow> False | Struct _ \<Rightarrow> True)"

subsection \<open>Building the typed data\<close>

text \<open>
  \<^verbatim>\<open>permit2Domain\<close> (from \<^verbatim>\<open>./domain\<close>) and \<^verbatim>\<open>hashTypedData\<close> (from viem) are not
  among the sources; they are parameters of the functions that call them, and are taken
  to return normally, as the specification describes them. The chain id, a JavaScript
  number, is only handed to \<^verbatim>\<open>permit2Domain\<close> and has an arbitrary type.

  Every \<^verbatim>\<open>invariant\<close> comes before the one write to the permit, so a call that fails
  has written nothing: the model returns the fault alone, and the store is the one the
  call was given.

  In \<^verbatim>\<open>getPermitTransferData\<close> the object spread \<^verbatim>\<open>...witness.witnessType\<close> comes after
  \<^verbatim>\<open>TokenPermissions\<close> and before \<^verbatim>\<open>PermitWitnessTransferFrom\<close>; in
  \<^verbatim>\<open>getPermitBatchTransferData\<close> it comes first. A later key overwrites an earlier one.

  When the function is called on a permit outside its declared parameter type, the
  model follows the JavaScript: an array has no \<^verbatim>\<open>amount\<close> and a bigint is not
  \<^verbatim>\<open>>= undefined\<close>, so the amount invariant fails; a struct has no \<^verbatim>\<open>forEach\<close>.
\<close>

definition getPermitTransferData ::
  "bool \<Rightarrow> (Address \<Rightarrow> 'c \<Rightarrow> 'd) \<Rightarrow> 'w store \<Rightarrow> ref \<Rightarrow> Address \<Rightarrow> 'c \<Rightarrow> 'w Witness option
     \<Rightarrow> error + ('d PermitTransferFromData \<times> 'w store)" where
  "getPermitTransferData isProduction permit2Domain s permit permit2Address chainId wit =
     (case invariant isProduction (MaxSigDeadline \<ge> deadline (s permit))
             ''SIG_DEADLINE_OUT_OF_RANGE'' of
        Inl e \<Rightarrow> Inl e
      | Inr _ \<Rightarrow>
     (case invariant isProduction (MaxUnorderedNonce \<ge> nonce (s permit))
             ''NONCE_OUT_OF_RANGE'' of
        Inl e \<Rightarrow> Inl e
      | Inr _ \<Rightarrow>
     (case (case permitted (s permit) of
              Struct permissions \<Rightarrow> validateTokenPermissions isProduction permissions
            | Array _ \<Rightarrow> invariant isProduction False ''AMOUNT_OUT_OF_RANGE'') of
        Inl e \<Rightarrow> Inl e
      | Inr _ \<Rightarrow>
          Inr (\<lparr>PermitTransferFromData.domain = permit2Domain permit2Address chainId,
                types =
                  (case wit of
                     Some w \<Rightarrow>
                       ([''TokenPermissions'' \<mapsto> TOKEN_PERMISSIONS] ++ witnessType w)
                         (''PermitWitnessTransferFrom'' \<mapsto>
                            [\<lparr>name = ''permitted'', type = ''TokenPermissions''\<rparr>,
                             \<lparr>name = ''spender'', type = ''address''\<rparr>,
                             \<lparr>name = ''nonce'', type = ''uint256''\<rparr>,
                             \<lparr>name = ''deadline'', type = ''uint256''\<rparr>,
                             \<lparr>name = ''witness'', type = witnessTypeName w\<rparr>])
                   | None \<Rightarrow> PERMIT_TRANSFER_FROM_TYPES),
                values = permit\<rparr>,
               (case wit of
                  Some w \<Rightarrow> s(permit := (s permit)\<lparr>witness := Some (Witness.witness w)\<rparr>)
                | None \<Rightarrow> s)))))"

definition getPermitBatchTransferData ::
  "bool \<Rightarrow> (Address \<Rightarrow> 'c \<Rightarrow> 'd) \<Rightarrow> 'w store \<Rightarrow> ref \<Rightarrow> Address \<Rightarrow> 'c \<Rightarrow> 'w Witness option
     \<Rightarrow> error + ('d PermitBatchTransferFromData \<times> 'w store)" where
  "getPermitBatchTransferData isProduction permit2Domain s permit permit2Address chainId wit =
     (case invariant isProduction (MaxSigDeadline \<ge> deadline (s permit))
             ''SIG_DEADLINE_OUT_OF_RANGE'' of
        Inl e \<Rightarrow> Inl e
      | Inr _ \<Rightarrow>
     (case invariant isProduction (MaxUnorderedNonce \<ge> nonce (s permit))
             ''NONCE_OUT_OF_RANGE'' of
        Inl e \<Rightarrow> Inl e
      | Inr _ \<Rightarrow>
     (case (case permitted (s permit) of
              Array ps \<Rightarrow> snd (forEach (validateTokenPermissions isProduction) ps)
            | Struct _ \<Rightarrow> Inl TypeError) of
        Inl e \<Rightarrow> Inl e
      | Inr _ \<Rightarrow>
          Inr (\<lparr>PermitTransferFromData.domain = permit2Domain permit2Address chainId,
                types =
                  (case wit of
                     Some w \<Rightarrow>
                       (witnessType w ++ [''TokenPermissions'' \<mapsto> TOKEN_PERMISSIONS])
                         (''PermitBatchWitnessTransferFrom'' \<mapsto>
                            [\<lparr>name = ''permitted'', type = ''TokenPermissions[]''\<rparr>,
                             \<lparr>name = ''spender'', type = ''address''\<rparr>,
                             \<lparr>name = ''nonce'', type = ''uint256''\<rparr>,
                             \<lparr>name = ''deadline'', type = ''uint256''\<rparr>,
                             \<lparr>name = ''witness'', type = witnessTypeName w\<rparr>])
                   | None \<Rightarrow> PERMIT_BATCH_TRANSFER_FROM_TYPES),
                values = permit\<rparr>,
               (case wit of
                  Some w \<Rightarrow> s(permit := (s permit)\<lparr>witness := Some (Witness.witness w)\<rparr>)
                | None \<Rightarrow> s)))))"

definition getPermitData ::
  "bool \<Rightarrow> (Address \<Rightarrow> 'c \<Rightarrow> 'd) \<Rightarrow> 'w store \<Rightarrow> ref \<Rightarrow> Address \<Rightarrow> 'c \<Rightarrow> 'w Witness option
     \<Rightarrow> error + ('d PermitTransferFromData \<times> 'w store)" where
  "getPermitData isProduction permit2Domain s permit permit2Address chainId wit =
     (if isPermitTransferFrom (s permit)
      then getPermitTransferData isProduction permit2Domain s permit permit2Address chainId wit
      else getPermitBatchTransferData isProduction permit2Domain s permit permit2Address chainId wit)"

definition hash ::
  "bool \<Rightarrow> (('d, 'w) TypedDataDefinition \<Rightarrow> string) \<Rightarrow> (Address \<Rightarrow> 'c \<Rightarrow> 'd) \<Rightarrow> 'w store \<Rightarrow> ref
     \<Rightarrow> Address \<Rightarrow> 'c \<Rightarrow> 'w Witness option \<Rightarrow> error + (string \<times> 'w store)" where
  "hash isProduction hashTypedData permit2Domain s permit permit2Address chainId wit =
     (if isPermitTransferFrom (s permit)
      then
        (case getPermitTransferData isProduction permit2Domain s permit permit2Address chainId wit of
           Inl e \<Rightarrow> Inl e
         | Inr (d, s') \<Rightarrow>
             Inr (hashTypedData
                    \<lparr>TypedDataDefinition.domain = PermitTransferFromData.domain d,
                     types = PermitTransferFromData.types d,
                     primaryType =
                       (if wit \<noteq> None then ''PermitWitnessTransferFrom''
                        else ''PermitTransferFrom''),
                     message = s' (values d)\<rparr>,
                  s'))
      else
        (case getPermitBatchTransferData isProduction permit2Domain s permit permit2Address chainId wit of
           Inl e \<Rightarrow> Inl e
         | Inr (d, s') \<Rightarrow>
             Inr (hashTypedData
                    \<lparr>TypedDataDefinition.domain = PermitTransferFromData.domain d,
                     types = PermitTransferFromData.types d,
                     primaryType =
                       (if wit \<noteq> None then ''PermitBatchWitnessTransferFrom''
                        else ''PermitBatchTransferFrom''),
                     message = s' (values d)\<rparr>,
                  s')))"

subsection \<open>The bounds of the data model\<close>

text \<open>
  The invariants the specification gives for a permit, as predicates to state the
  theorems with: every permitted amount is at most \<^verbatim>\<open>MaxSignatureTransferAmount\<close>, the
  deadline at most \<^verbatim>\<open>MaxSigDeadline\<close>, the nonce at most \<^verbatim>\<open>MaxUnorderedNonce\<close>.
\<close>

definition amounts_in_range :: "permitted_value \<Rightarrow> bool" where
  "amounts_in_range v =
     (case v of
        Struct t \<Rightarrow> amount t \<le> MaxSignatureTransferAmount
      | Array ts \<Rightarrow> list_all (\<lambda>t. amount t \<le> MaxSignatureTransferAmount) ts)"

definition permit_in_range :: "'w permit \<Rightarrow> bool" where
  "permit_in_range p =
     (deadline p \<le> MaxSigDeadline \<and> nonce p \<le> MaxUnorderedNonce
      \<and> amounts_in_range (permitted p))"

text \<open>
  The primary-type name as the specification words it: a function of whether the permit
  is single and whether a witness is present.
\<close>

definition primaryTypeName :: "bool \<Rightarrow> bool \<Rightarrow> string" where
  "primaryTypeName single with_witness =
     (if single
      then (if with_witness then ''PermitWitnessTransferFrom'' else ''PermitTransferFrom'')
      else (if with_witness then ''PermitBatchWitnessTransferFrom''
            else ''PermitBatchTransferFrom''))"

text \<open>The store in which every reference holds the object \<open>obj\<close>, for concrete inputs.\<close>

definition store_of :: "'w permit \<Rightarrow> 'w store" where
  "store_of obj = (\<lambda>_. obj)"

text \<open>
  Concrete inputs: the permit of the specification's end-to-end example, a batch permit
  with the same single entry, and a witness.
\<close>

definition example_permit :: "nat permit" where
  "example_permit =
     \<lparr>permitted = Struct \<lparr>token = ''0xAAA'', amount = 1000\<rparr>, spender = ''0xBBB'',
      nonce = 0, deadline = 1700000000, witness = None\<rparr>"

definition example_batch_permit :: "nat permit" where
  "example_batch_permit =
     \<lparr>permitted = Array [\<lparr>token = ''0xAAA'', amount = 1000\<rparr>], spender = ''0xBBB'',
      nonce = 0, deadline = 1700000000, witness = None\<rparr>"

definition example_witness :: "nat Witness" where
  "example_witness =
     \<lparr>Witness.witness = 7, witnessTypeName = ''MockWitness'',
      witnessType = [''MockWitness'' \<mapsto> [\<lparr>name = ''mock'', type = ''uint256''\<rparr>]]\<rparr>"

text \<open>A witness whose own type mapping declares the names of the base primary structs.\<close>

definition example_clashing_witness :: "nat Witness" where
  "example_clashing_witness =
     \<lparr>Witness.witness = 7, witnessTypeName = ''PermitTransferFrom'',
      witnessType =
        [''PermitTransferFrom'' \<mapsto> [\<lparr>name = ''mock'', type = ''uint256''\<rparr>],
         ''PermitBatchTransferFrom'' \<mapsto> [\<lparr>name = ''mock'', type = ''uint256''\<rparr>]]\<rparr>"

text \<open>A witness whose own type mapping is the single-permit schema.\<close>

definition example_single_declaring_witness :: "nat Witness" where
  "example_single_declaring_witness =
     \<lparr>Witness.witness = 7, witnessTypeName = ''PermitTransferFrom'',
      witnessType = PERMIT_TRANSFER_FROM_TYPES\<rparr>"

section \<open>Properties\<close>

subsection \<open>Auxiliary facts\<close>

lemma validateTokenPermissions_eq:
  "validateTokenPermissions P t =
     (if amount t \<le> MaxSignatureTransferAmount then Inr ()
      else Inl (Error (if P then ''Invariant failed''
                       else ''Invariant failed: AMOUNT_OUT_OF_RANGE'')))"
  by (simp add: validateTokenPermissions_def invariant_def prefix_def)



lemma forEach_uniform_outcome:
  assumes "\<And>t. f t = (if ok t then Inr () else Inl e)"
  shows "snd (forEach f ts) = (if list_all ok ts then Inr () else Inl e)"
  by (induction ts) (auto simp: assms split: prod.splits)

lemma forEach_validate_outcome:
  "snd (forEach (validateTokenPermissions P) ts) =
     (if list_all (\<lambda>t. amount t \<le> MaxSignatureTransferAmount) ts then Inr ()
      else Inl (Error (if P then ''Invariant failed''
                 else ''Invariant failed: AMOUNT_OUT_OF_RANGE'')))"
  by (rule forEach_uniform_outcome) (rule validateTokenPermissions_eq)

text \<open>The faults, in the order of the checks.\<close>

lemma single_deadline_fault:
  "MaxSigDeadline < deadline (s p) \<Longrightarrow>
     getPermitTransferData P D s p a c w =
       Inl (Error (if P then ''Invariant failed''
                   else ''Invariant failed: SIG_DEADLINE_OUT_OF_RANGE''))"
  by (simp add: getPermitTransferData_def invariant_def prefix_def)

lemma batch_deadline_fault:
  "MaxSigDeadline < deadline (s p) \<Longrightarrow>
     getPermitBatchTransferData P D s p a c w =
       Inl (Error (if P then ''Invariant failed''
                   else ''Invariant failed: SIG_DEADLINE_OUT_OF_RANGE''))"
  by (simp add: getPermitBatchTransferData_def invariant_def prefix_def)

lemma single_nonce_fault:
  "deadline (s p) \<le> MaxSigDeadline \<Longrightarrow> MaxUnorderedNonce < nonce (s p) \<Longrightarrow>
     getPermitTransferData P D s p a c w =
       Inl (Error (if P then ''Invariant failed''
                   else ''Invariant failed: NONCE_OUT_OF_RANGE''))"
  by (simp add: getPermitTransferData_def invariant_def prefix_def)

lemma batch_nonce_fault:
  "deadline (s p) \<le> MaxSigDeadline \<Longrightarrow> MaxUnorderedNonce < nonce (s p) \<Longrightarrow>
     getPermitBatchTransferData P D s p a c w =
       Inl (Error (if P then ''Invariant failed''
                   else ''Invariant failed: NONCE_OUT_OF_RANGE''))"
  by (simp add: getPermitBatchTransferData_def invariant_def prefix_def)

lemma single_amount_fault:
  "deadline (s p) \<le> MaxSigDeadline \<Longrightarrow> nonce (s p) \<le> MaxUnorderedNonce \<Longrightarrow>
   permitted (s p) = Struct t \<Longrightarrow> MaxSignatureTransferAmount < amount t \<Longrightarrow>
     getPermitTransferData P D s p a c w =
       Inl (Error (if P then ''Invariant failed''
                   else ''Invariant failed: AMOUNT_OUT_OF_RANGE''))"
  by (simp add: getPermitTransferData_def invariant_def prefix_def
      validateTokenPermissions_def)

lemma batch_amount_fault:
  "deadline (s p) \<le> MaxSigDeadline \<Longrightarrow> nonce (s p) \<le> MaxUnorderedNonce \<Longrightarrow>
   permitted (s p) = Array ts \<Longrightarrow>
   \<not> list_all (\<lambda>t. amount t \<le> MaxSignatureTransferAmount) ts \<Longrightarrow>
     getPermitBatchTransferData P D s p a c w =
       Inl (Error (if P then ''Invariant failed''
                   else ''Invariant failed: AMOUNT_OUT_OF_RANGE''))"
  by (simp add: getPermitBatchTransferData_def invariant_def prefix_def
      forEach_validate_outcome)

text \<open>The result of a call on a permit within its bounds.\<close>

lemma single_result:
  "deadline (s p) \<le> MaxSigDeadline \<Longrightarrow> nonce (s p) \<le> MaxUnorderedNonce \<Longrightarrow>
   permitted (s p) = Struct t \<Longrightarrow> amount t \<le> MaxSignatureTransferAmount \<Longrightarrow>
     getPermitTransferData P D s p a c w =
       Inr (\<lparr>PermitTransferFromData.domain = D a c,
             types =
               (case w of
                  Some x \<Rightarrow>
                    ([''TokenPermissions'' \<mapsto> TOKEN_PERMISSIONS] ++ witnessType x)
                      (''PermitWitnessTransferFrom'' \<mapsto>
                         [\<lparr>name = ''permitted'', type = ''TokenPermissions''\<rparr>,
                          \<lparr>name = ''spender'', type = ''address''\<rparr>,
                          \<lparr>name = ''nonce'', type = ''uint256''\<rparr>,
                          \<lparr>name = ''deadline'', type = ''uint256''\<rparr>,
                          \<lparr>name = ''witness'', type = witnessTypeName x\<rparr>])
                | None \<Rightarrow> PERMIT_TRANSFER_FROM_TYPES),
             values = p\<rparr>,
            (case w of
               Some x \<Rightarrow> s(p := (s p)\<lparr>witness := Some (Witness.witness x)\<rparr>)
             | None \<Rightarrow> s))"
  by (simp add: getPermitTransferData_def invariant_def prefix_def
      validateTokenPermissions_def)

lemma batch_result:
  "deadline (s p) \<le> MaxSigDeadline \<Longrightarrow> nonce (s p) \<le> MaxUnorderedNonce \<Longrightarrow>
   permitted (s p) = Array ts \<Longrightarrow>
   list_all (\<lambda>t. amount t \<le> MaxSignatureTransferAmount) ts \<Longrightarrow>
     getPermitBatchTransferData P D s p a c w =
       Inr (\<lparr>PermitTransferFromData.domain = D a c,
             types =
               (case w of
                  Some x \<Rightarrow>
                    (witnessType x ++ [''TokenPermissions'' \<mapsto> TOKEN_PERMISSIONS])
                      (''PermitBatchWitnessTransferFrom'' \<mapsto>
                         [\<lparr>name = ''permitted'', type = ''TokenPermissions[]''\<rparr>,
                          \<lparr>name = ''spender'', type = ''address''\<rparr>,
                          \<lparr>name = ''nonce'', type = ''uint256''\<rparr>,
                          \<lparr>name = ''deadline'', type = ''uint256''\<rparr>,
                          \<lparr>name = ''witness'', type = witnessTypeName x\<rparr>])
                | None \<Rightarrow> PERMIT_BATCH_TRANSFER_FROM_TYPES),
             values = p\<rparr>,
            (case w of
               Some x \<Rightarrow> s(p := (s p)\<lparr>witness := Some (Witness.witness x)\<rparr>)
             | None \<Rightarrow> s))"
  by (simp add: getPermitBatchTransferData_def invariant_def prefix_def
      forEach_validate_outcome)

text \<open>A call returns a result exactly on the permits within their bounds.\<close>

lemma single_returns_iff:
  "(\<exists>r. getPermitTransferData P D s p a c w = Inr r) \<longleftrightarrow>
     isPermitTransferFrom (s p) \<and> permit_in_range (s p)"
  by (auto simp: getPermitTransferData_def invariant_def prefix_def validateTokenPermissions_def
      isPermitTransferFrom_def permit_in_range_def amounts_in_range_def
      split: permitted_value.splits)

lemma batch_returns_iff:
  "(\<exists>r. getPermitBatchTransferData P D s p a c w = Inr r) \<longleftrightarrow>
     \<not> isPermitTransferFrom (s p) \<and> permit_in_range (s p)"
  by (auto simp: getPermitBatchTransferData_def invariant_def prefix_def forEach_validate_outcome
      isPermitTransferFrom_def permit_in_range_def amounts_in_range_def
      split: permitted_value.splits)

lemma getPermitData_returns_iff:
  "(\<exists>r. getPermitData P D s p a c w = Inr r) \<longleftrightarrow> permit_in_range (s p)"
  using single_returns_iff [of P D s p a c w] batch_returns_iff [of P D s p a c w]
  by (auto simp: getPermitData_def)

lemma getPermitData_Struct:
  "permitted (s p) = Struct t \<Longrightarrow>
     getPermitData P D s p a c w = getPermitTransferData P D s p a c w"
  by (simp add: getPermitData_def isPermitTransferFrom_def)

lemma getPermitData_Array:
  "permitted (s p) = Array ts \<Longrightarrow>
     getPermitData P D s p a c w = getPermitBatchTransferData P D s p a c w"
  by (simp add: getPermitData_def isPermitTransferFrom_def)

lemma hash_Struct:
  "permitted (s p) = Struct t \<Longrightarrow>
     hash P h D s p a c w =
       (case getPermitTransferData P D s p a c w of
          Inl e \<Rightarrow> Inl e
        | Inr (d, s') \<Rightarrow>
            Inr (h \<lparr>TypedDataDefinition.domain = PermitTransferFromData.domain d,
                    types = PermitTransferFromData.types d,
                    primaryType =
                      (if w \<noteq> None then ''PermitWitnessTransferFrom''
                       else ''PermitTransferFrom''),
                    message = s' (values d)\<rparr>, s'))"
  by (simp add: hash_def isPermitTransferFrom_def)

lemma hash_Array:
  "permitted (s p) = Array ts \<Longrightarrow>
     hash P h D s p a c w =
       (case getPermitBatchTransferData P D s p a c w of
          Inl e \<Rightarrow> Inl e
        | Inr (d, s') \<Rightarrow>
            Inr (h \<lparr>TypedDataDefinition.domain = PermitTransferFromData.domain d,
                    types = PermitTransferFromData.types d,
                    primaryType =
                      (if w \<noteq> None then ''PermitBatchWitnessTransferFrom''
                       else ''PermitBatchTransferFrom''),
                    message = s' (values d)\<rparr>, s'))"
  by (simp add: hash_def isPermitTransferFrom_def)

text \<open>What a successful call leaves in the store.\<close>

lemma single_store:
  "getPermitTransferData P D s p a c w = Inr (d, s') \<Longrightarrow>
     values d = p \<and>
     s' = (case w of
             Some x \<Rightarrow> s(p := (s p)\<lparr>witness := Some (Witness.witness x)\<rparr>)
           | None \<Rightarrow> s)"
  by (auto simp: getPermitTransferData_def invariant_def prefix_def split: sum.splits)

lemma batch_store:
  "getPermitBatchTransferData P D s p a c w = Inr (d, s') \<Longrightarrow>
     values d = p \<and>
     s' = (case w of
             Some x \<Rightarrow> s(p := (s p)\<lparr>witness := Some (Witness.witness x)\<rparr>)
           | None \<Rightarrow> s)"
  by (auto simp: getPermitBatchTransferData_def invariant_def prefix_def split: sum.splits)

lemma getPermitData_store:
  "getPermitData P D s p a c w = Inr (d, s') \<Longrightarrow>
     values d = p \<and>
     s' = (case w of
             Some x \<Rightarrow> s(p := (s p)\<lparr>witness := Some (Witness.witness x)\<rparr>)
           | None \<Rightarrow> s)"
  by (simp add: getPermitData_def single_store batch_store split: if_splits)

lemma hash_eq_getPermitData:
  "hash P h D s p a c w =
     (case getPermitData P D s p a c w of
        Inl e \<Rightarrow> Inl e
      | Inr (d, s') \<Rightarrow>
          Inr (h \<lparr>TypedDataDefinition.domain = PermitTransferFromData.domain d,
                  types = PermitTransferFromData.types d,
                  primaryType = primaryTypeName (isPermitTransferFrom (s p)) (w \<noteq> None),
                  message = s' (values d)\<rparr>, s'))"
  by (auto simp: hash_def getPermitData_def primaryTypeName_def split: sum.splits)

lemma hash_store:
  "hash P h D s p a c w = Inr (r, s') \<Longrightarrow>
     s' = (case w of
             Some x \<Rightarrow> s(p := (s p)\<lparr>witness := Some (Witness.witness x)\<rparr>)
           | None \<Rightarrow> s)"
proof -
  assume "hash P h D s p a c w = Inr (r, s')"
  then obtain d where "getPermitData P D s p a c w = Inr (d, s')"
    by (auto simp: hash_eq_getPermitData split: sum.splits)
  then show ?thesis by (simp add: getPermitData_store)
qed

text \<open>The schema a successful call returns.\<close>

lemma single_witness_types:
  "getPermitTransferData P D s p a c (Some x) = Inr (d, s') \<Longrightarrow>
     PermitTransferFromData.types d =
       ([''TokenPermissions'' \<mapsto> TOKEN_PERMISSIONS] ++ witnessType x)
         (''PermitWitnessTransferFrom'' \<mapsto>
            [\<lparr>name = ''permitted'', type = ''TokenPermissions''\<rparr>,
             \<lparr>name = ''spender'', type = ''address''\<rparr>,
             \<lparr>name = ''nonce'', type = ''uint256''\<rparr>,
             \<lparr>name = ''deadline'', type = ''uint256''\<rparr>,
             \<lparr>name = ''witness'', type = witnessTypeName x\<rparr>])"
  by (auto simp: getPermitTransferData_def invariant_def prefix_def split: sum.splits)

lemma batch_witness_types:
  "getPermitBatchTransferData P D s p a c (Some x) = Inr (d, s') \<Longrightarrow>
     PermitTransferFromData.types d =
       (witnessType x ++ [''TokenPermissions'' \<mapsto> TOKEN_PERMISSIONS])
         (''PermitBatchWitnessTransferFrom'' \<mapsto>
            [\<lparr>name = ''permitted'', type = ''TokenPermissions[]''\<rparr>,
             \<lparr>name = ''spender'', type = ''address''\<rparr>,
             \<lparr>name = ''nonce'', type = ''uint256''\<rparr>,
             \<lparr>name = ''deadline'', type = ''uint256''\<rparr>,
             \<lparr>name = ''witness'', type = witnessTypeName x\<rparr>])"
  by (auto simp: getPermitBatchTransferData_def invariant_def prefix_def split: sum.splits)

lemma single_plain_types:
  "getPermitTransferData P D s p a c None = Inr (d, s') \<Longrightarrow>
     PermitTransferFromData.types d = PERMIT_TRANSFER_FROM_TYPES"
  by (auto simp: getPermitTransferData_def invariant_def prefix_def split: sum.splits)

lemma batch_plain_types:
  "getPermitBatchTransferData P D s p a c None = Inr (d, s') \<Longrightarrow>
     PermitTransferFromData.types d = PERMIT_BATCH_TRANSFER_FROM_TYPES"
  by (auto simp: getPermitBatchTransferData_def invariant_def prefix_def split: sum.splits)

lemma primaryTypeName_values:
  "primaryTypeName True False = ''PermitTransferFrom''"
  "primaryTypeName True True = ''PermitWitnessTransferFrom''"
  "primaryTypeName False False = ''PermitBatchTransferFrom''"
  "primaryTypeName False True = ''PermitBatchWitnessTransferFrom''"
  by (simp_all add: primaryTypeName_def)

lemma hash_of_result:
  "getPermitData P D s p a c w = Inr (d, s') \<Longrightarrow>
     hash P h D s p a c w =
       Inr (h \<lparr>TypedDataDefinition.domain = PermitTransferFromData.domain d,
               types = PermitTransferFromData.types d,
               primaryType = primaryTypeName (isPermitTransferFrom (s p)) (w \<noteq> None),
               message = s' (values d)\<rparr>, s')"
  by (simp add: hash_eq_getPermitData)

lemma hash_of_fault:
  "getPermitData P D s p a c w = Inl e \<Longrightarrow> hash P h D s p a c w = Inl e"
  by (simp add: hash_eq_getPermitData)

lemma hash_reads_permit_only:
  "s1 p1 = s2 p2 \<Longrightarrow>
     map_sum id fst (hash P h D s1 p1 a c w) = map_sum id fst (hash P h D s2 p2 a c w)"
  by (cases w)
    (auto simp: hash_def getPermitTransferData_def getPermitBatchTransferData_def
      invariant_def split: sum.splits)

lemma hash_again:
  "hash P h D s p a c w = Inr (r, s') \<Longrightarrow> hash P h D s' p a c w = Inr (r, s')"
proof (cases w)
  case None
  assume r: "hash P h D s p a c w = Inr (r, s')"
  from hash_store [OF r] None have "s' = s" by simp
  with r show ?thesis by simp
next
  case (Some x)
  assume r: "hash P h D s p a c w = Inr (r, s')"
  from hash_store [OF r] Some
  have s': "s' = s(p := (s p)\<lparr>witness := Some (Witness.witness x)\<rparr>)"
    by simp
  show ?thesis
    using r unfolding s' Some
    by (auto simp: hash_def isPermitTransferFrom_def getPermitTransferData_def
        getPermitBatchTransferData_def invariant_def prefix_def split: sum.splits if_splits)
qed

subsection \<open>The schema without a witness\<close>

text \<open>
  Claim C7. For a permit within its bounds and no witness, the returned \<open>types\<close> is
  \<^verbatim>\<open>PERMIT_TRANSFER_FROM_TYPES\<close>, with exactly the keys \<^verbatim>\<open>TokenPermissions\<close> and
  \<^verbatim>\<open>PermitTransferFrom\<close>, in the single case, and \<^verbatim>\<open>PERMIT_BATCH_TRANSFER_FROM_TYPES\<close>,
  with exactly the keys \<^verbatim>\<open>TokenPermissions\<close> and \<^verbatim>\<open>PermitBatchTransferFrom\<close> and
  \<^verbatim>\<open>permitted\<close> typed \<^verbatim>\<open>TokenPermissions[]\<close>, in the batch case; the returned \<open>values\<close>
  is the permit that was passed, and the store is left as it was.
\<close>

theorem C7_no_witness_base_schema:
  "permit_in_range (s p) \<longrightarrow>
     (\<forall>t. permitted (s p) = Struct t \<longrightarrow>
        getPermitTransferData P D s p a c None =
          Inr (\<lparr>PermitTransferFromData.domain = D a c, types = PERMIT_TRANSFER_FROM_TYPES,
                values = p\<rparr>, s)
        \<and> getPermitData P D s p a c None = getPermitTransferData P D s p a c None)
     \<and> (\<forall>ts. permitted (s p) = Array ts \<longrightarrow>
        getPermitBatchTransferData P D s p a c None =
          Inr (\<lparr>PermitTransferFromData.domain = D a c,
                types = PERMIT_BATCH_TRANSFER_FROM_TYPES, values = p\<rparr>, s)
        \<and> getPermitData P D s p a c None = getPermitBatchTransferData P D s p a c None)
     \<and> dom PERMIT_TRANSFER_FROM_TYPES = {''TokenPermissions'', ''PermitTransferFrom''}
     \<and> dom PERMIT_BATCH_TRANSFER_FROM_TYPES = {''TokenPermissions'', ''PermitBatchTransferFrom''}
     \<and> PERMIT_BATCH_TRANSFER_FROM_TYPES ''PermitBatchTransferFrom'' =
         Some [\<lparr>name = ''permitted'', type = ''TokenPermissions[]''\<rparr>,
               \<lparr>name = ''spender'', type = ''address''\<rparr>,
               \<lparr>name = ''nonce'', type = ''uint256''\<rparr>,
               \<lparr>name = ''deadline'', type = ''uint256''\<rparr>]"
proof (intro impI conjI allI)
  fix t
  assume r: "permit_in_range (s p)" and st: "permitted (s p) = Struct t"
  show "getPermitTransferData P D s p a c None =
          Inr (\<lparr>PermitTransferFromData.domain = D a c, types = PERMIT_TRANSFER_FROM_TYPES,
                values = p\<rparr>, s)"
    using r st single_result [of s p t P D a c None]
    by (simp add: permit_in_range_def amounts_in_range_def)
  show "getPermitData P D s p a c None = getPermitTransferData P D s p a c None"
    using st by (rule getPermitData_Struct)
next
  fix ts
  assume r: "permit_in_range (s p)" and ar: "permitted (s p) = Array ts"
  show "getPermitBatchTransferData P D s p a c None =
          Inr (\<lparr>PermitTransferFromData.domain = D a c,
                types = PERMIT_BATCH_TRANSFER_FROM_TYPES, values = p\<rparr>, s)"
    using r ar batch_result [of s p ts P D a c None]
    by (simp add: permit_in_range_def amounts_in_range_def)
  show "getPermitData P D s p a c None = getPermitBatchTransferData P D s p a c None"
    using ar by (rule getPermitData_Array)
next
  show "dom PERMIT_TRANSFER_FROM_TYPES = {''TokenPermissions'', ''PermitTransferFrom''}"
    by (auto simp: PERMIT_TRANSFER_FROM_TYPES_def)
  show "dom PERMIT_BATCH_TRANSFER_FROM_TYPES = {''TokenPermissions'', ''PermitBatchTransferFrom''}"
    by (auto simp: PERMIT_BATCH_TRANSFER_FROM_TYPES_def)
  show "PERMIT_BATCH_TRANSFER_FROM_TYPES ''PermitBatchTransferFrom'' =
         Some [\<lparr>name = ''permitted'', type = ''TokenPermissions[]''\<rparr>,
               \<lparr>name = ''spender'', type = ''address''\<rparr>,
               \<lparr>name = ''nonce'', type = ''uint256''\<rparr>,
               \<lparr>name = ''deadline'', type = ''uint256''\<rparr>]"
    by (simp add: PERMIT_BATCH_TRANSFER_FROM_TYPES_def)
qed

text \<open>The example permit and the one-entry batch permit, without a witness.\<close>

theorem C7_no_witness_base_schema_witness:
  "permit_in_range (store_of example_permit 0)
   \<and> getPermitData False Pair (store_of example_permit) 0 ''0xCCC'' (1::nat) None =
       Inr (\<lparr>PermitTransferFromData.domain = (''0xCCC'', 1),
             types = PERMIT_TRANSFER_FROM_TYPES, values = 0\<rparr>, store_of example_permit)
   \<and> permit_in_range (store_of example_batch_permit 0)
   \<and> getPermitData False Pair (store_of example_batch_permit) 0 ''0xCCC'' (1::nat) None =
       Inr (\<lparr>PermitTransferFromData.domain = (''0xCCC'', 1),
             types = PERMIT_BATCH_TRANSFER_FROM_TYPES, values = 0\<rparr>,
            store_of example_batch_permit)"
proof -
  have r1: "permit_in_range (store_of example_permit 0)"
    by (simp add: permit_in_range_def amounts_in_range_def store_of_def example_permit_def
        MaxSigDeadline_def MaxUnorderedNonce_def MaxSignatureTransferAmount_def)
  have r2: "permit_in_range (store_of example_batch_permit 0)"
    by (simp add: permit_in_range_def amounts_in_range_def store_of_def
        example_batch_permit_def MaxSigDeadline_def MaxUnorderedNonce_def
        MaxSignatureTransferAmount_def)
  have p1: "permitted (store_of example_permit 0) = Struct \<lparr>token = ''0xAAA'', amount = 1000\<rparr>"
    by (simp add: store_of_def example_permit_def)
  have p2: "permitted (store_of example_batch_permit 0)
      = Array [\<lparr>token = ''0xAAA'', amount = 1000\<rparr>]"
    by (simp add: store_of_def example_batch_permit_def)
  from C7_no_witness_base_schema [of "store_of example_permit" 0 False Pair "''0xCCC''" "1::nat"]
    r1 p1
  have "getPermitData False Pair (store_of example_permit) 0 ''0xCCC'' (1::nat) None =
       Inr (\<lparr>PermitTransferFromData.domain = (''0xCCC'', 1),
             types = PERMIT_TRANSFER_FROM_TYPES, values = 0\<rparr>, store_of example_permit)"
    by simp
  moreover
  from C7_no_witness_base_schema
    [of "store_of example_batch_permit" 0 False Pair "''0xCCC''" "1::nat"]
    r2 p2
  have "getPermitData False Pair (store_of example_batch_permit) 0 ''0xCCC'' (1::nat) None =
       Inr (\<lparr>PermitTransferFromData.domain = (''0xCCC'', 1),
             types = PERMIT_BATCH_TRANSFER_FROM_TYPES, values = 0\<rparr>,
            store_of example_batch_permit)"
    by simp
  ultimately show ?thesis using r1 r2 by blast
qed

subsection \<open>Validation of a batch\<close>



subsection \<open>The caller's permit object\<close>

text \<open>
  Claim C1 asks that no call changes the permit object it is given. With a witness the
  builders run \<^verbatim>\<open>Object.assign(permit, { witness: witness.witness })\<close>, whose target is the
  caller's object: after a call on the example permit, which has no property
  \<^verbatim>\<open>witness\<close>, the object at the caller's reference has one, for the single and for the
  batch builder.
\<close>

theorem C1_permit_unchanged_counterexample:
  "\<not> isl (getPermitTransferData False Pair (store_of example_permit) 0 ''0xCCC'' (1::nat)
            (Some example_witness))
   \<and> witness (snd (projr (getPermitTransferData False Pair (store_of example_permit) 0 ''0xCCC''
        (1::nat) (Some example_witness))) 0) = Some 7
   \<and> witness (store_of example_permit 0) = None
   \<and> \<not> isl (getPermitBatchTransferData False Pair (store_of example_batch_permit) 0 ''0xCCC''
            (1::nat) (Some example_witness))
   \<and> witness (snd (projr (getPermitBatchTransferData False Pair (store_of example_batch_permit) 0
        ''0xCCC'' (1::nat) (Some example_witness))) 0) = Some 7
   \<and> witness (store_of example_batch_permit 0) = None"
  by (simp add: getPermitTransferData_def getPermitBatchTransferData_def invariant_def prefix_def
      validateTokenPermissions_def store_of_def example_permit_def example_batch_permit_def
      example_witness_def MaxSigDeadline_def MaxUnorderedNonce_def
      MaxSignatureTransferAmount_def)

text \<open>
  Claim C1, amended. A call that returns a result returns as \<open>values\<close> the reference it
  was given. Without a witness the store is unchanged. With a witness, the payload of
  the witness is written into the caller's permit object under the key \<^verbatim>\<open>witness\<close>; its
  other properties and every other object are unchanged. This holds for the single and
  the batch builder, for \<^verbatim>\<open>getPermitData\<close> and for \<^verbatim>\<open>hash\<close>.
\<close>

theorem C1_witness_written_into_permit:
  "((getPermitTransferData P D s p a c w = Inr (d, s')
     \<or> getPermitBatchTransferData P D s p a c w = Inr (d, s')
     \<or> getPermitData P D s p a c w = Inr (d, s')) \<longrightarrow>
      values d = p
      \<and> (w = None \<longrightarrow> s' = s)
      \<and> (\<forall>x. w = Some x \<longrightarrow>
           s' = s(p := (s p)\<lparr>witness := Some (Witness.witness x)\<rparr>)))
   \<and> (hash P h D s p a c w = Inr (r, s'') \<longrightarrow>
      (w = None \<longrightarrow> s'' = s)
      \<and> (\<forall>x. w = Some x \<longrightarrow>
           s'' = s(p := (s p)\<lparr>witness := Some (Witness.witness x)\<rparr>)))"
proof (intro conjI impI allI)
  assume "getPermitTransferData P D s p a c w = Inr (d, s')
    \<or> getPermitBatchTransferData P D s p a c w = Inr (d, s')
    \<or> getPermitData P D s p a c w = Inr (d, s')"
  then have st: "values d = p \<and>
     s' = (case w of
             Some x \<Rightarrow> s(p := (s p)\<lparr>witness := Some (Witness.witness x)\<rparr>)
           | None \<Rightarrow> s)"
  proof (elim disjE)
    assume "getPermitTransferData P D s p a c w = Inr (d, s')"
    then show ?thesis by (rule single_store)
  next
    assume "getPermitBatchTransferData P D s p a c w = Inr (d, s')"
    then show ?thesis by (rule batch_store)
  next
    assume "getPermitData P D s p a c w = Inr (d, s')"
    then show ?thesis by (rule getPermitData_store)
  qed
  show "values d = p" using st by simp
  show "s' = s" if "w = None" using st that by simp
  show "s' = s(p := (s p)\<lparr>witness := Some (Witness.witness x)\<rparr>)" if "w = Some x" for x
    using st that by simp
next
  assume "hash P h D s p a c w = Inr (r, s'')"
  then have st: "s'' = (case w of
             Some x \<Rightarrow> s(p := (s p)\<lparr>witness := Some (Witness.witness x)\<rparr>)
           | None \<Rightarrow> s)"
    by (rule hash_store)
  show "s'' = s" if "w = None" using st that by simp
  show "s'' = s(p := (s p)\<lparr>witness := Some (Witness.witness x)\<rparr>)" if "w = Some x" for x
    using st that by simp
qed

text \<open>
  The example permit with the example witness: the object at reference 0 gets the
  payload 7, the object at reference 1 is as before.
\<close>

theorem C1_witness_written_into_permit_witness:
  "\<exists>d s'. getPermitData False Pair (store_of example_permit) 0 ''0xCCC'' (1::nat)
             (Some example_witness) = Inr (d, s')
     \<and> values d = 0
     \<and> s' 0 = example_permit\<lparr>witness := Some 7\<rparr>
     \<and> s' 1 = example_permit"
proof -
  have "permit_in_range (store_of example_permit 0)"
    by (simp add: permit_in_range_def amounts_in_range_def store_of_def example_permit_def
        MaxSigDeadline_def MaxUnorderedNonce_def MaxSignatureTransferAmount_def)
  then obtain d s' where r: "getPermitData False Pair (store_of example_permit) 0 ''0xCCC'' (1::nat)
             (Some example_witness) = Inr (d, s')"
    using getPermitData_returns_iff
      [of False Pair "store_of example_permit" 0 "''0xCCC''" "1::nat" "Some example_witness"]
    by auto
  from r have "getPermitTransferData False Pair (store_of example_permit) 0 ''0xCCC'' (1::nat)
        (Some example_witness) = Inr (d, s')
    \<or> getPermitBatchTransferData False Pair (store_of example_permit) 0 ''0xCCC'' (1::nat)
        (Some example_witness) = Inr (d, s')
    \<or> getPermitData False Pair (store_of example_permit) 0 ''0xCCC'' (1::nat)
        (Some example_witness) = Inr (d, s')"
    by (intro disjI2)
  with C1_witness_written_into_permit
    [of False Pair "store_of example_permit" 0 "''0xCCC''" "1::nat" "Some example_witness" d s']
  have "values d = 0
    \<and> s' = (store_of example_permit)
        (0 := (store_of example_permit 0)\<lparr>witness := Some (Witness.witness example_witness)\<rparr>)"
    by blast
  then have "values d = 0 \<and> s' 0 = example_permit\<lparr>witness := Some 7\<rparr> \<and> s' 1 = example_permit"
    by (simp add: store_of_def example_witness_def)
  with r show ?thesis by blast
qed

subsection \<open>The schema with a witness\<close>

text \<open>
  Claim C4 says that with a witness the name of the base primary struct,
  \<^verbatim>\<open>PermitTransferFrom\<close> or \<^verbatim>\<open>PermitBatchTransferFrom\<close>, is never a key of the returned
  \<open>types\<close>. The builders spread \<^verbatim>\<open>witness.witnessType\<close> into \<open>types\<close> as it is, so a
  witness that declares a type of that name puts it there.
\<close>

theorem C4_base_name_absent_counterexample:
  "\<not> isl (getPermitTransferData False Pair (store_of example_permit) 0 ''0xCCC'' (1::nat)
            (Some example_clashing_witness))
   \<and> PermitTransferFromData.types (fst (projr (getPermitTransferData False Pair (store_of example_permit) 0 ''0xCCC''
        (1::nat) (Some example_clashing_witness)))) ''PermitTransferFrom''
       = Some [\<lparr>name = ''mock'', type = ''uint256''\<rparr>]
   \<and> \<not> isl (getPermitBatchTransferData False Pair (store_of example_batch_permit) 0 ''0xCCC''
            (1::nat) (Some example_clashing_witness))
   \<and> PermitTransferFromData.types (fst (projr (getPermitBatchTransferData False Pair (store_of example_batch_permit) 0
        ''0xCCC'' (1::nat) (Some example_clashing_witness)))) ''PermitBatchTransferFrom''
       = Some [\<lparr>name = ''mock'', type = ''uint256''\<rparr>]"
  by (simp add: getPermitTransferData_def getPermitBatchTransferData_def invariant_def prefix_def
      validateTokenPermissions_def store_of_def example_permit_def example_batch_permit_def
      example_clashing_witness_def MaxSigDeadline_def MaxUnorderedNonce_def
      MaxSignatureTransferAmount_def)

text \<open>
  Claim C4, amended. For a permit within its bounds and a witness, the keys of the
  returned \<open>types\<close> are exactly the keys of the witness's \<^verbatim>\<open>witnessType\<close>, the key
  \<^verbatim>\<open>TokenPermissions\<close> and the key of the witness-extended primary struct,
  \<^verbatim>\<open>PermitWitnessTransferFrom\<close> for a single and \<^verbatim>\<open>PermitBatchWitnessTransferFrom\<close> for a
  batch permit; the members of that struct are the base members followed by
  \<^verbatim>\<open>{ name: 'witness', type: witnessTypeName }\<close>; and the name of the base primary struct
  is a key only if the witness's \<^verbatim>\<open>witnessType\<close> declares it.
\<close>

theorem C4_witness_schema:
  "getPermitData P D s p a c (Some x) = Inr (d, s') \<longrightarrow>
     (\<forall>t. permitted (s p) = Struct t \<longrightarrow>
        dom (PermitTransferFromData.types d)
          = dom (witnessType x) \<union> {''TokenPermissions'', ''PermitWitnessTransferFrom''}
        \<and> PermitTransferFromData.types d ''PermitWitnessTransferFrom'' =
            Some [\<lparr>name = ''permitted'', type = ''TokenPermissions''\<rparr>,
                  \<lparr>name = ''spender'', type = ''address''\<rparr>,
                  \<lparr>name = ''nonce'', type = ''uint256''\<rparr>,
                  \<lparr>name = ''deadline'', type = ''uint256''\<rparr>,
                  \<lparr>name = ''witness'', type = witnessTypeName x\<rparr>]
        \<and> (''PermitTransferFrom'' \<in> dom (PermitTransferFromData.types d)
             \<longleftrightarrow> ''PermitTransferFrom'' \<in> dom (witnessType x)))
     \<and> (\<forall>ts. permitted (s p) = Array ts \<longrightarrow>
        dom (PermitTransferFromData.types d)
          = dom (witnessType x) \<union> {''TokenPermissions'', ''PermitBatchWitnessTransferFrom''}
        \<and> PermitTransferFromData.types d ''PermitBatchWitnessTransferFrom'' =
            Some [\<lparr>name = ''permitted'', type = ''TokenPermissions[]''\<rparr>,
                  \<lparr>name = ''spender'', type = ''address''\<rparr>,
                  \<lparr>name = ''nonce'', type = ''uint256''\<rparr>,
                  \<lparr>name = ''deadline'', type = ''uint256''\<rparr>,
                  \<lparr>name = ''witness'', type = witnessTypeName x\<rparr>]
        \<and> (''PermitBatchTransferFrom'' \<in> dom (PermitTransferFromData.types d)
             \<longleftrightarrow> ''PermitBatchTransferFrom'' \<in> dom (witnessType x)))"
proof (intro impI conjI allI)
  fix t
  assume r: "getPermitData P D s p a c (Some x) = Inr (d, s')"
    and st: "permitted (s p) = Struct t"
  from r st have "getPermitTransferData P D s p a c (Some x) = Inr (d, s')"
    by (simp add: getPermitData_Struct)
  then have ty: "PermitTransferFromData.types d =
       ([''TokenPermissions'' \<mapsto> TOKEN_PERMISSIONS] ++ witnessType x)
         (''PermitWitnessTransferFrom'' \<mapsto>
            [\<lparr>name = ''permitted'', type = ''TokenPermissions''\<rparr>,
             \<lparr>name = ''spender'', type = ''address''\<rparr>,
             \<lparr>name = ''nonce'', type = ''uint256''\<rparr>,
             \<lparr>name = ''deadline'', type = ''uint256''\<rparr>,
             \<lparr>name = ''witness'', type = witnessTypeName x\<rparr>])"
    by (rule single_witness_types)
  show "dom (PermitTransferFromData.types d)
      = dom (witnessType x) \<union> {''TokenPermissions'', ''PermitWitnessTransferFrom''}"
    unfolding ty by auto
  show "PermitTransferFromData.types d ''PermitWitnessTransferFrom'' =
            Some [\<lparr>name = ''permitted'', type = ''TokenPermissions''\<rparr>,
                  \<lparr>name = ''spender'', type = ''address''\<rparr>,
                  \<lparr>name = ''nonce'', type = ''uint256''\<rparr>,
                  \<lparr>name = ''deadline'', type = ''uint256''\<rparr>,
                  \<lparr>name = ''witness'', type = witnessTypeName x\<rparr>]"
    unfolding ty by simp
  show "''PermitTransferFrom'' \<in> dom (PermitTransferFromData.types d)
      \<longleftrightarrow> ''PermitTransferFrom'' \<in> dom (witnessType x)"
    unfolding ty by auto
next
  fix ts
  assume r: "getPermitData P D s p a c (Some x) = Inr (d, s')"
    and ar: "permitted (s p) = Array ts"
  from r ar have "getPermitBatchTransferData P D s p a c (Some x) = Inr (d, s')"
    by (simp add: getPermitData_Array)
  then have ty: "PermitTransferFromData.types d =
       (witnessType x ++ [''TokenPermissions'' \<mapsto> TOKEN_PERMISSIONS])
         (''PermitBatchWitnessTransferFrom'' \<mapsto>
            [\<lparr>name = ''permitted'', type = ''TokenPermissions[]''\<rparr>,
             \<lparr>name = ''spender'', type = ''address''\<rparr>,
             \<lparr>name = ''nonce'', type = ''uint256''\<rparr>,
             \<lparr>name = ''deadline'', type = ''uint256''\<rparr>,
             \<lparr>name = ''witness'', type = witnessTypeName x\<rparr>])"
    by (rule batch_witness_types)
  show "dom (PermitTransferFromData.types d)
      = dom (witnessType x) \<union> {''TokenPermissions'', ''PermitBatchWitnessTransferFrom''}"
    unfolding ty by auto
  show "PermitTransferFromData.types d ''PermitBatchWitnessTransferFrom'' =
            Some [\<lparr>name = ''permitted'', type = ''TokenPermissions[]''\<rparr>,
                  \<lparr>name = ''spender'', type = ''address''\<rparr>,
                  \<lparr>name = ''nonce'', type = ''uint256''\<rparr>,
                  \<lparr>name = ''deadline'', type = ''uint256''\<rparr>,
                  \<lparr>name = ''witness'', type = witnessTypeName x\<rparr>]"
    unfolding ty by simp
  show "''PermitBatchTransferFrom'' \<in> dom (PermitTransferFromData.types d)
      \<longleftrightarrow> ''PermitBatchTransferFrom'' \<in> dom (witnessType x)"
    unfolding ty by auto
qed

text \<open>
  The example permit with the example witness, which declares the one type
  \<^verbatim>\<open>MockWitness\<close>: three keys, and \<^verbatim>\<open>PermitTransferFrom\<close> is not among them.
\<close>

theorem C4_witness_schema_witness:
  "\<exists>d s'. getPermitData False Pair (store_of example_permit) 0 ''0xCCC'' (1::nat)
             (Some example_witness) = Inr (d, s')
     \<and> dom (PermitTransferFromData.types d) = {''TokenPermissions'', ''PermitWitnessTransferFrom'', ''MockWitness''}
     \<and> PermitTransferFromData.types d ''PermitWitnessTransferFrom'' =
            Some [\<lparr>name = ''permitted'', type = ''TokenPermissions''\<rparr>,
                  \<lparr>name = ''spender'', type = ''address''\<rparr>,
                  \<lparr>name = ''nonce'', type = ''uint256''\<rparr>,
                  \<lparr>name = ''deadline'', type = ''uint256''\<rparr>,
                  \<lparr>name = ''witness'', type = ''MockWitness''\<rparr>]
     \<and> ''PermitTransferFrom'' \<notin> dom (PermitTransferFromData.types d)"
proof -
  have "permit_in_range (store_of example_permit 0)"
    by (simp add: permit_in_range_def amounts_in_range_def store_of_def example_permit_def
        MaxSigDeadline_def MaxUnorderedNonce_def MaxSignatureTransferAmount_def)
  then obtain d s' where r: "getPermitData False Pair (store_of example_permit) 0 ''0xCCC'' (1::nat)
             (Some example_witness) = Inr (d, s')"
    using getPermitData_returns_iff
      [of False Pair "store_of example_permit" 0 "''0xCCC''" "1::nat" "Some example_witness"]
    by auto
  have st: "permitted (store_of example_permit 0) = Struct \<lparr>token = ''0xAAA'', amount = 1000\<rparr>"
    by (simp add: store_of_def example_permit_def)
  from C4_witness_schema
    [of False Pair "store_of example_permit" 0 "''0xCCC''" "1::nat" example_witness d s'] r st
  have "dom (PermitTransferFromData.types d)
          = dom (witnessType example_witness)
            \<union> {''TokenPermissions'', ''PermitWitnessTransferFrom''}
        \<and> PermitTransferFromData.types d ''PermitWitnessTransferFrom'' =
            Some [\<lparr>name = ''permitted'', type = ''TokenPermissions''\<rparr>,
                  \<lparr>name = ''spender'', type = ''address''\<rparr>,
                  \<lparr>name = ''nonce'', type = ''uint256''\<rparr>,
                  \<lparr>name = ''deadline'', type = ''uint256''\<rparr>,
                  \<lparr>name = ''witness'', type = witnessTypeName example_witness\<rparr>]
        \<and> (''PermitTransferFrom'' \<in> dom (PermitTransferFromData.types d)
             \<longleftrightarrow> ''PermitTransferFrom'' \<in> dom (witnessType example_witness))"
    by blast
  then have "dom (PermitTransferFromData.types d) = {''TokenPermissions'', ''PermitWitnessTransferFrom'', ''MockWitness''}
     \<and> PermitTransferFromData.types d ''PermitWitnessTransferFrom'' =
            Some [\<lparr>name = ''permitted'', type = ''TokenPermissions''\<rparr>,
                  \<lparr>name = ''spender'', type = ''address''\<rparr>,
                  \<lparr>name = ''nonce'', type = ''uint256''\<rparr>,
                  \<lparr>name = ''deadline'', type = ''uint256''\<rparr>,
                  \<lparr>name = ''witness'', type = ''MockWitness''\<rparr>]
     \<and> ''PermitTransferFrom'' \<notin> dom (PermitTransferFromData.types d)"
    by (simp add: example_witness_def)
  with r show ?thesis by (intro exI [of _ d] exI [of _ s']) simp
qed

subsection \<open>Hashing\<close>

text \<open>
  Claim C5. Where \<^verbatim>\<open>getPermitData\<close> returns the triple \<open>{domain, types, values}\<close>, \<^verbatim>\<open>hash\<close>
  on the same arguments returns \<^verbatim>\<open>hashTypedData\<close> applied to that \<open>domain\<close>, those
  \<open>types\<close>, the properties of the \<open>values\<close> object as message, and the primary type
  selected by the shape of the permit and the presence of a witness; where
  \<^verbatim>\<open>getPermitData\<close> fails, \<^verbatim>\<open>hash\<close> fails with the same fault. The result of \<^verbatim>\<open>hash\<close> is
  the string the primitive returns, unchanged. \<^verbatim>\<open>getPermitData\<close> does not take the
  primitive, and returns the triple.
\<close>

theorem C5_hash_of_permit_data:
  "(getPermitData P D s p a c w = Inr (d, s') \<longrightarrow>
      hash P h D s p a c w =
        Inr (h \<lparr>TypedDataDefinition.domain = PermitTransferFromData.domain d,
                types = PermitTransferFromData.types d,
                primaryType =
                  (if isPermitTransferFrom (s p)
                   then (if w \<noteq> None then ''PermitWitnessTransferFrom''
                         else ''PermitTransferFrom'')
                   else (if w \<noteq> None then ''PermitBatchWitnessTransferFrom''
                         else ''PermitBatchTransferFrom'')),
                message = s' (values d)\<rparr>, s'))
   \<and> (getPermitData P D s p a c w = Inl e \<longrightarrow> hash P h D s p a c w = Inl e)"
  by (simp add: hash_of_result hash_of_fault primaryTypeName_def)

text \<open>
  The example permit without a witness, with the projection to the message in place of
  the primitive: the message handed over is the permit.
\<close>

theorem C5_hash_of_permit_data_witness:
  "getPermitData False Pair (store_of example_permit) 0 ''0xCCC'' (1::nat) None =
     Inr (\<lparr>PermitTransferFromData.domain = (''0xCCC'', 1),
           types = PERMIT_TRANSFER_FROM_TYPES, values = 0\<rparr>, store_of example_permit)
   \<and> hash False (\<lambda>td. spender (message td)) Pair (store_of example_permit) 0 ''0xCCC'' (1::nat) None
       = Inr (''0xBBB'', store_of example_permit)"
proof -
  have r: "getPermitData False Pair (store_of example_permit) 0 ''0xCCC'' (1::nat) None =
     Inr (\<lparr>PermitTransferFromData.domain = (''0xCCC'', 1),
           types = PERMIT_TRANSFER_FROM_TYPES, values = 0\<rparr>, store_of example_permit)"
    by (simp add: getPermitData_def isPermitTransferFrom_def getPermitTransferData_def
        invariant_def prefix_def validateTokenPermissions_def store_of_def example_permit_def
        MaxSigDeadline_def MaxUnorderedNonce_def MaxSignatureTransferAmount_def)
  from C5_hash_of_permit_data
    [of False Pair "store_of example_permit" 0 "''0xCCC''" "1::nat" None _ _ "\<lambda>td. spender (message td)"]
    r
  have "hash False (\<lambda>td. spender (message td)) Pair (store_of example_permit) 0 ''0xCCC'' (1::nat)
      None = Inr (''0xBBB'', store_of example_permit)"
    by (simp add: store_of_def example_permit_def)
  with r show ?thesis by simp
qed

text \<open>
  Claim C6. The primary type that \<^verbatim>\<open>hash\<close> hands to the primitive is
  \<open>primaryTypeName\<close> of two booleans, whether the permit is single and whether a witness
  is present, and of nothing else. Its four values are the four fixed names, one for
  each pair.
\<close>

theorem C6_primary_type_name:
  "(getPermitData P D s p a c w = Inr (d, s') \<longrightarrow>
      (\<exists>td. primaryType td = primaryTypeName (isPermitTransferFrom (s p)) (w \<noteq> None)
         \<and> (\<forall>h. hash P h D s p a c w = Inr (h td, s'))))
   \<and> primaryTypeName True False = ''PermitTransferFrom''
   \<and> primaryTypeName True True = ''PermitWitnessTransferFrom''
   \<and> primaryTypeName False False = ''PermitBatchTransferFrom''
   \<and> primaryTypeName False True = ''PermitBatchWitnessTransferFrom''"
proof (intro conjI impI)
  assume r: "getPermitData P D s p a c w = Inr (d, s')"
  let ?td = "\<lparr>TypedDataDefinition.domain = PermitTransferFromData.domain d,
               types = PermitTransferFromData.types d,
               primaryType = primaryTypeName (isPermitTransferFrom (s p)) (w \<noteq> None),
               message = s' (values d)\<rparr>"
  have "primaryType ?td = primaryTypeName (isPermitTransferFrom (s p)) (w \<noteq> None)"
    by simp
  moreover have "\<forall>h. hash P h D s p a c w = Inr (h ?td, s')"
    using r by (simp add: hash_of_result)
  ultimately show "\<exists>td. primaryType td = primaryTypeName (isPermitTransferFrom (s p)) (w \<noteq> None)
         \<and> (\<forall>h. hash P h D s p a c w = Inr (h td, s'))"
    by (intro exI [of _ ?td] conjI)
qed (simp_all add: primaryTypeName_values)

text \<open>
  With the projection to the primary type in place of the primitive, \<^verbatim>\<open>hash\<close> returns the
  name it selected: the four combinations of the two example permits and the example
  witness give the four names.
\<close>

theorem C6_primary_type_name_witness:
  "fst (projr (hash False primaryType Pair (store_of example_permit) 0 ''0xCCC'' (1::nat) None))
     = ''PermitTransferFrom''
   \<and> fst (projr (hash False primaryType Pair (store_of example_permit) 0 ''0xCCC'' (1::nat)
        (Some example_witness))) = ''PermitWitnessTransferFrom''
   \<and> fst (projr (hash False primaryType Pair (store_of example_batch_permit) 0 ''0xCCC'' (1::nat)
        None)) = ''PermitBatchTransferFrom''
   \<and> fst (projr (hash False primaryType Pair (store_of example_batch_permit) 0 ''0xCCC'' (1::nat)
        (Some example_witness))) = ''PermitBatchWitnessTransferFrom''"
proof -
  have name: "fst (projr (hash False primaryType Pair s 0 ''0xCCC'' (1::nat) w))
      = primaryTypeName (isPermitTransferFrom (s 0)) (w \<noteq> None)"
    if "permit_in_range (s 0)" for s :: "nat store" and w
  proof -
    from that obtain d s' where r: "getPermitData False Pair s 0 ''0xCCC'' (1::nat) w = Inr (d, s')"
      using getPermitData_returns_iff [of False Pair s 0 "''0xCCC''" "1::nat" w] by auto
    from C6_primary_type_name [of False Pair s 0 "''0xCCC''" "1::nat" w d s'] r
    obtain td where "primaryType td = primaryTypeName (isPermitTransferFrom (s 0)) (w \<noteq> None)"
      and "\<forall>h. hash False h Pair s 0 ''0xCCC'' (1::nat) w = Inr (h td, s')"
      by blast
    then show ?thesis by simp
  qed
  have r1: "permit_in_range (store_of example_permit 0)"
    by (simp add: permit_in_range_def amounts_in_range_def store_of_def example_permit_def
        MaxSigDeadline_def MaxUnorderedNonce_def MaxSignatureTransferAmount_def)
  have r2: "permit_in_range (store_of example_batch_permit 0)"
    by (simp add: permit_in_range_def amounts_in_range_def store_of_def
        example_batch_permit_def MaxSigDeadline_def MaxUnorderedNonce_def
        MaxSignatureTransferAmount_def)
  have i1: "isPermitTransferFrom (store_of example_permit 0)"
    by (simp add: isPermitTransferFrom_def store_of_def example_permit_def)
  have i2: "\<not> isPermitTransferFrom (store_of example_batch_permit 0)"
    by (simp add: isPermitTransferFrom_def store_of_def example_batch_permit_def)
  have n1: "fst (projr (hash False primaryType Pair (store_of example_permit) 0 ''0xCCC'' (1::nat)
        None)) = ''PermitTransferFrom''"
    using name [of "store_of example_permit" None] r1 i1 by (simp add: primaryTypeName_values)
  have n2: "fst (projr (hash False primaryType Pair (store_of example_permit) 0 ''0xCCC'' (1::nat)
        (Some example_witness))) = ''PermitWitnessTransferFrom''"
    using name [of "store_of example_permit" "Some example_witness"] r1 i1 by (simp add: primaryTypeName_values)
  have n3: "fst (projr (hash False primaryType Pair (store_of example_batch_permit) 0 ''0xCCC''
        (1::nat) None)) = ''PermitBatchTransferFrom''"
    using name [of "store_of example_batch_permit" None] r2 i2 by (simp add: primaryTypeName_values)
  have n4: "fst (projr (hash False primaryType Pair (store_of example_batch_permit) 0 ''0xCCC''
        (1::nat) (Some example_witness))) = ''PermitBatchWitnessTransferFrom''"
    using name [of "store_of example_batch_permit" "Some example_witness"] r2 i2 by (simp add: primaryTypeName_values)
  from n1 n2 n3 n4 show ?thesis by simp
qed

subsection \<open>Bounds checks\<close>

text \<open>
  Claim C2 says that a value above its maximum fails with the fault distinguished for
  its field. In a production build \<^verbatim>\<open>invariant\<close> drops the message: a deadline, a nonce
  and an amount one above the maximum all fail with the same error, the bare
  \<^verbatim>\<open>Invariant failed\<close>.
\<close>

theorem C2_distinguished_fault_counterexample:
  "getPermitData True Pair (store_of (example_permit\<lparr>deadline := MaxSigDeadline + 1\<rparr>))
     0 ''0xCCC'' (1::nat) None = Inl (Error ''Invariant failed'')
   \<and> getPermitData True Pair (store_of (example_permit\<lparr>nonce := MaxUnorderedNonce + 1\<rparr>))
     0 ''0xCCC'' (1::nat) None = Inl (Error ''Invariant failed'')
   \<and> getPermitData True Pair
     (store_of (example_permit
        \<lparr>permitted := Struct \<lparr>token = ''0xAAA'', amount = MaxSignatureTransferAmount + 1\<rparr>\<rparr>))
     0 ''0xCCC'' (1::nat) None = Inl (Error ''Invariant failed'')"
  by (simp add: getPermitData_def isPermitTransferFrom_def getPermitTransferData_def
      invariant_def prefix_def validateTokenPermissions_def store_of_def example_permit_def
      MaxSigDeadline_def MaxUnorderedNonce_def MaxSignatureTransferAmount_def)

text \<open>
  Claim C2, amended. Each of the three checks has an inclusive upper bound. A call
  returns a result exactly when the deadline, the nonce and every permitted amount are
  at most their maxima, so a value equal to its maximum passes; otherwise it fails with
  an error of \<^verbatim>\<open>invariant\<close> and returns no result. In a build that is not a production
  build the error carries the message of the field: \<^verbatim>\<open>SIG_DEADLINE_OUT_OF_RANGE\<close> exactly
  when the deadline is above \<^verbatim>\<open>MaxSigDeadline\<close>, \<^verbatim>\<open>NONCE_OUT_OF_RANGE\<close> exactly when the
  deadline check has passed and the nonce is above \<^verbatim>\<open>MaxUnorderedNonce\<close>,
  \<^verbatim>\<open>AMOUNT_OUT_OF_RANGE\<close> exactly when both have passed and an amount is above
  \<^verbatim>\<open>MaxSignatureTransferAmount\<close>. In a production build the error is the bare
  \<^verbatim>\<open>Invariant failed\<close> for all three. \<^verbatim>\<open>validateTokenPermissions\<close> alone passes exactly
  the amounts up to the maximum.
\<close>

theorem C2_inclusive_upper_bounds:
  "((\<exists>r. getPermitData P D s p a c w = Inr r) \<longleftrightarrow>
      deadline (s p) \<le> MaxSigDeadline \<and> nonce (s p) \<le> MaxUnorderedNonce
      \<and> amounts_in_range (permitted (s p)))
   \<and> ((\<exists>m. getPermitData P D s p a c w = Inl (Error m)) \<longleftrightarrow>
      \<not> (deadline (s p) \<le> MaxSigDeadline \<and> nonce (s p) \<le> MaxUnorderedNonce
         \<and> amounts_in_range (permitted (s p))))
   \<and> (\<not> P \<longrightarrow>
        (getPermitData P D s p a c w
           = Inl (Error ''Invariant failed: SIG_DEADLINE_OUT_OF_RANGE'') \<longleftrightarrow>
         MaxSigDeadline < deadline (s p))
      \<and> (getPermitData P D s p a c w
           = Inl (Error ''Invariant failed: NONCE_OUT_OF_RANGE'') \<longleftrightarrow>
         deadline (s p) \<le> MaxSigDeadline \<and> MaxUnorderedNonce < nonce (s p))
      \<and> (getPermitData P D s p a c w
           = Inl (Error ''Invariant failed: AMOUNT_OUT_OF_RANGE'') \<longleftrightarrow>
         deadline (s p) \<le> MaxSigDeadline \<and> nonce (s p) \<le> MaxUnorderedNonce
         \<and> \<not> amounts_in_range (permitted (s p))))
   \<and> (P \<longrightarrow>
        (getPermitData P D s p a c w = Inl (Error ''Invariant failed'') \<longleftrightarrow>
         \<not> (deadline (s p) \<le> MaxSigDeadline \<and> nonce (s p) \<le> MaxUnorderedNonce
            \<and> amounts_in_range (permitted (s p)))))
   \<and> (validateTokenPermissions P t = Inr () \<longleftrightarrow> amount t \<le> MaxSignatureTransferAmount)
   \<and> (validateTokenPermissions P t =
         Inl (Error (if P then ''Invariant failed''
                     else ''Invariant failed: AMOUNT_OUT_OF_RANGE'')) \<longleftrightarrow>
        MaxSignatureTransferAmount < amount t)"
proof -
  let ?dl = "MaxSigDeadline < deadline (s p)"
  let ?nc = "MaxUnorderedNonce < nonce (s p)"
  let ?am = "amounts_in_range (permitted (s p))"
  have out: "getPermitData P D s p a c w =
      (if ?dl then Inl (Error (if P then ''Invariant failed''
                               else ''Invariant failed: SIG_DEADLINE_OUT_OF_RANGE''))
       else if ?nc then Inl (Error (if P then ''Invariant failed''
                                    else ''Invariant failed: NONCE_OUT_OF_RANGE''))
       else Inl (Error (if P then ''Invariant failed''
                        else ''Invariant failed: AMOUNT_OUT_OF_RANGE'')))"
    if "\<not> (deadline (s p) \<le> MaxSigDeadline \<and> nonce (s p) \<le> MaxUnorderedNonce \<and> ?am)"
  proof (cases "permitted (s p)")
    case (Struct u)
    then have g: "getPermitData P D s p a c w = getPermitTransferData P D s p a c w"
      by (simp add: getPermitData_Struct)
    show ?thesis
    proof (cases ?dl)
      case True
      then show ?thesis by (simp add: g single_deadline_fault)
    next
      case dl: False
      show ?thesis
      proof (cases ?nc)
        case True
        with dl show ?thesis
          by (simp add: g single_nonce_fault)
      next
        case nc: False
        with dl that Struct have "MaxSignatureTransferAmount < amount u"
          by (simp add: amounts_in_range_def)
        with dl nc Struct show ?thesis
          by (simp add: g single_amount_fault)
      qed
    qed
  next
    case (Array us)
    then have g: "getPermitData P D s p a c w = getPermitBatchTransferData P D s p a c w"
      by (simp add: getPermitData_Array)
    show ?thesis
    proof (cases ?dl)
      case True
      then show ?thesis by (simp add: g batch_deadline_fault)
    next
      case dl: False
      show ?thesis
      proof (cases ?nc)
        case True
        with dl show ?thesis
          by (simp add: g batch_nonce_fault)
      next
        case nc: False
        with dl that Array
        have "\<not> list_all (\<lambda>t. amount t \<le> MaxSignatureTransferAmount) us"
          by (simp add: amounts_in_range_def)
        with dl nc Array show ?thesis
          by (simp add: g batch_amount_fault)
      qed
    qed
  qed
  have returns: "(\<exists>r. getPermitData P D s p a c w = Inr r) \<longleftrightarrow>
      deadline (s p) \<le> MaxSigDeadline \<and> nonce (s p) \<le> MaxUnorderedNonce \<and> ?am"
    using getPermitData_returns_iff [of P D s p a c w] by (simp add: permit_in_range_def)
  have fails: "(\<exists>m. getPermitData P D s p a c w = Inl (Error m)) \<longleftrightarrow>
      \<not> (deadline (s p) \<le> MaxSigDeadline \<and> nonce (s p) \<le> MaxUnorderedNonce \<and> ?am)"
  proof
    assume "\<exists>m. getPermitData P D s p a c w = Inl (Error m)"
    then have "\<not> (\<exists>r. getPermitData P D s p a c w = Inr r)" by auto
    with returns show "\<not> (deadline (s p) \<le> MaxSigDeadline
        \<and> nonce (s p) \<le> MaxUnorderedNonce \<and> ?am)"
      by simp
  next
    assume "\<not> (deadline (s p) \<le> MaxSigDeadline \<and> nonce (s p) \<le> MaxUnorderedNonce \<and> ?am)"
    from out [OF this] show "\<exists>m. getPermitData P D s p a c w = Inl (Error m)"
      by (simp split: if_splits)
  qed
  have dev: "(getPermitData P D s p a c w
           = Inl (Error ''Invariant failed: SIG_DEADLINE_OUT_OF_RANGE'') \<longleftrightarrow> ?dl)
      \<and> (getPermitData P D s p a c w
           = Inl (Error ''Invariant failed: NONCE_OUT_OF_RANGE'') \<longleftrightarrow>
         deadline (s p) \<le> MaxSigDeadline \<and> ?nc)
      \<and> (getPermitData P D s p a c w
           = Inl (Error ''Invariant failed: AMOUNT_OUT_OF_RANGE'') \<longleftrightarrow>
         deadline (s p) \<le> MaxSigDeadline \<and> nonce (s p) \<le> MaxUnorderedNonce \<and> \<not> ?am)"
    if "\<not> P"
  proof (cases "deadline (s p) \<le> MaxSigDeadline \<and> nonce (s p) \<le> MaxUnorderedNonce \<and> ?am")
    case True
    with returns obtain r where "getPermitData P D s p a c w = Inr r" by blast
    with True show ?thesis by simp
  next
    case False
    from out [OF False] that False show ?thesis by (simp split: if_splits)
  qed
  have prod: "getPermitData P D s p a c w = Inl (Error ''Invariant failed'') \<longleftrightarrow>
         \<not> (deadline (s p) \<le> MaxSigDeadline \<and> nonce (s p) \<le> MaxUnorderedNonce \<and> ?am)"
    if "P"
  proof (cases "deadline (s p) \<le> MaxSigDeadline \<and> nonce (s p) \<le> MaxUnorderedNonce \<and> ?am")
    case True
    with returns obtain r where "getPermitData P D s p a c w = Inr r" by blast
    with True show ?thesis by simp
  next
    case False
    from out [OF False] that False show ?thesis by (simp split: if_splits)
  qed
  have v: "(validateTokenPermissions P t = Inr () \<longleftrightarrow> amount t \<le> MaxSignatureTransferAmount)
     \<and> (validateTokenPermissions P t =
         Inl (Error (if P then ''Invariant failed''
                     else ''Invariant failed: AMOUNT_OUT_OF_RANGE'')) \<longleftrightarrow>
        MaxSignatureTransferAmount < amount t)"
    by (auto simp: validateTokenPermissions_eq)
  show ?thesis
    by (intro conjI impI) (use returns fails dev prod v in \<open>simp_all\<close>)
qed

text \<open>
  The boundary itself, in a build that keeps the messages and in a production build:
  the permit with all three fields at their maxima passes, and one more in any single
  field fails, with that field's message where messages are kept.
\<close>

theorem C2_inclusive_upper_bounds_witness:
  "(\<exists>r. getPermitData False Pair
           (store_of (example_permit
              \<lparr>permitted := Struct \<lparr>token = ''0xAAA'', amount = MaxSignatureTransferAmount\<rparr>,
               nonce := MaxUnorderedNonce, deadline := MaxSigDeadline\<rparr>))
           0 ''0xCCC'' (1::nat) None = Inr r)
   \<and> getPermitData False Pair (store_of (example_permit\<lparr>deadline := MaxSigDeadline + 1\<rparr>))
        0 ''0xCCC'' (1::nat) None = Inl (Error ''Invariant failed: SIG_DEADLINE_OUT_OF_RANGE'')
   \<and> getPermitData False Pair (store_of (example_permit\<lparr>nonce := MaxUnorderedNonce + 1\<rparr>))
        0 ''0xCCC'' (1::nat) None = Inl (Error ''Invariant failed: NONCE_OUT_OF_RANGE'')
   \<and> getPermitData False Pair
        (store_of (example_permit
           \<lparr>permitted := Struct \<lparr>token = ''0xAAA'', amount = MaxSignatureTransferAmount + 1\<rparr>\<rparr>))
        0 ''0xCCC'' (1::nat) None = Inl (Error ''Invariant failed: AMOUNT_OUT_OF_RANGE'')
   \<and> (\<exists>r. getPermitData True Pair
           (store_of (example_permit
              \<lparr>permitted := Struct \<lparr>token = ''0xAAA'', amount = MaxSignatureTransferAmount\<rparr>,
               nonce := MaxUnorderedNonce, deadline := MaxSigDeadline\<rparr>))
           0 ''0xCCC'' (1::nat) None = Inr r)
   \<and> getPermitData True Pair (store_of (example_permit\<lparr>nonce := MaxUnorderedNonce + 1\<rparr>))
        0 ''0xCCC'' (1::nat) None = Inl (Error ''Invariant failed'')"
proof -
  let ?ok = "store_of (example_permit
              \<lparr>permitted := Struct \<lparr>token = ''0xAAA'', amount = MaxSignatureTransferAmount\<rparr>,
               nonce := MaxUnorderedNonce, deadline := MaxSigDeadline\<rparr>)"
  let ?d = "store_of (example_permit\<lparr>deadline := MaxSigDeadline + 1\<rparr>)"
  let ?n = "store_of (example_permit\<lparr>nonce := MaxUnorderedNonce + 1\<rparr>)"
  let ?a = "store_of (example_permit
           \<lparr>permitted := Struct \<lparr>token = ''0xAAA'', amount = MaxSignatureTransferAmount + 1\<rparr>\<rparr>)"
  have 1: "\<exists>r. getPermitData False Pair ?ok 0 ''0xCCC'' (1::nat) None = Inr r"
    using C2_inclusive_upper_bounds [of False Pair ?ok 0 "''0xCCC''" "1::nat" None,
        THEN conjunct1]
    by (simp add: store_of_def example_permit_def amounts_in_range_def)
  have 2: "getPermitData False Pair ?d 0 ''0xCCC'' (1::nat) None
      = Inl (Error ''Invariant failed: SIG_DEADLINE_OUT_OF_RANGE'')"
    using C2_inclusive_upper_bounds [of False Pair ?d 0 "''0xCCC''" "1::nat" None,
        THEN conjunct2, THEN conjunct2, THEN conjunct1]
    by (simp add: store_of_def example_permit_def)
  have 3: "getPermitData False Pair ?n 0 ''0xCCC'' (1::nat) None
      = Inl (Error ''Invariant failed: NONCE_OUT_OF_RANGE'')"
    using C2_inclusive_upper_bounds [of False Pair ?n 0 "''0xCCC''" "1::nat" None,
        THEN conjunct2, THEN conjunct2, THEN conjunct1]
    by (simp add: store_of_def example_permit_def MaxSigDeadline_def)
  have 4: "getPermitData False Pair ?a 0 ''0xCCC'' (1::nat) None
      = Inl (Error ''Invariant failed: AMOUNT_OUT_OF_RANGE'')"
    using C2_inclusive_upper_bounds [of False Pair ?a 0 "''0xCCC''" "1::nat" None,
        THEN conjunct2, THEN conjunct2, THEN conjunct1]
    by (simp add: store_of_def example_permit_def amounts_in_range_def MaxSigDeadline_def
        MaxUnorderedNonce_def)
  have 5: "\<exists>r. getPermitData True Pair ?ok 0 ''0xCCC'' (1::nat) None = Inr r"
    using C2_inclusive_upper_bounds [of True Pair ?ok 0 "''0xCCC''" "1::nat" None,
        THEN conjunct1]
    by (simp add: store_of_def example_permit_def amounts_in_range_def)
  have 6: "getPermitData True Pair ?n 0 ''0xCCC'' (1::nat) None = Inl (Error ''Invariant failed'')"
    using C2_inclusive_upper_bounds [of True Pair ?n 0 "''0xCCC''" "1::nat" None,
        THEN conjunct2, THEN conjunct2, THEN conjunct2, THEN conjunct1]
    by (simp add: store_of_def example_permit_def MaxSigDeadline_def)
  from 1 2 3 4 5 6 show ?thesis by (intro conjI)
qed

subsection \<open>Order of the checks\<close>

text \<open>
  Claim C10 says that a permit with several bounds exceeded fails with the fault of the
  field checked first. In a production build there is one fault for all three checks:
  a permit with nonce and amount both out of range fails with the same error as a
  permit with only the amount out of range, and a permit with deadline and nonce both
  out of range with the same error as one with only the nonce out of range.
\<close>

theorem C10_fault_precedence_counterexample:
  "getPermitTransferData True Pair
     (store_of (example_permit
        \<lparr>permitted := Struct \<lparr>token = ''0xAAA'', amount = MaxSignatureTransferAmount + 1\<rparr>,
         nonce := MaxUnorderedNonce + 1\<rparr>))
     0 ''0xCCC'' (1::nat) None = Inl (Error ''Invariant failed'')
   \<and> getPermitTransferData True Pair
     (store_of (example_permit
        \<lparr>permitted := Struct \<lparr>token = ''0xAAA'', amount = MaxSignatureTransferAmount + 1\<rparr>\<rparr>))
     0 ''0xCCC'' (1::nat) None = Inl (Error ''Invariant failed'')
   \<and> getPermitBatchTransferData True Pair
     (store_of (example_batch_permit
        \<lparr>nonce := MaxUnorderedNonce + 1, deadline := MaxSigDeadline + 1\<rparr>))
     0 ''0xCCC'' (1::nat) None = Inl (Error ''Invariant failed'')
   \<and> getPermitBatchTransferData True Pair
     (store_of (example_batch_permit\<lparr>nonce := MaxUnorderedNonce + 1\<rparr>))
     0 ''0xCCC'' (1::nat) None = Inl (Error ''Invariant failed'')"
  by (simp add: getPermitTransferData_def getPermitBatchTransferData_def invariant_def
      prefix_def validateTokenPermissions_def store_of_def example_permit_def
      example_batch_permit_def MaxSigDeadline_def MaxUnorderedNonce_def
      MaxSignatureTransferAmount_def)

text \<open>
  Claim C10, amended. The checks run in the order deadline, nonce, amounts, and the
  first one that fails ends the call. In a build that is not a production build the
  error carries the message of that first check: a deadline above its maximum gives
  \<^verbatim>\<open>SIG_DEADLINE_OUT_OF_RANGE\<close> whatever the nonce and the amounts are; with the deadline
  in range, a nonce above its maximum gives \<^verbatim>\<open>NONCE_OUT_OF_RANGE\<close> whatever the amounts
  are; \<^verbatim>\<open>AMOUNT_OUT_OF_RANGE\<close> is given only when deadline and nonce are both in range.
  In a production build the error is the bare \<^verbatim>\<open>Invariant failed\<close> in all these cases.
  This holds for the single and the batch builder, for \<^verbatim>\<open>getPermitData\<close> and for
  \<^verbatim>\<open>hash\<close>.
\<close>

theorem C10_fault_precedence:
  "(MaxSigDeadline < deadline (s p) \<longrightarrow>
      getPermitTransferData P D s p a c w =
        Inl (Error (if P then ''Invariant failed''
                    else ''Invariant failed: SIG_DEADLINE_OUT_OF_RANGE''))
      \<and> getPermitBatchTransferData P D s p a c w =
        Inl (Error (if P then ''Invariant failed''
                    else ''Invariant failed: SIG_DEADLINE_OUT_OF_RANGE''))
      \<and> getPermitData P D s p a c w =
        Inl (Error (if P then ''Invariant failed''
                    else ''Invariant failed: SIG_DEADLINE_OUT_OF_RANGE''))
      \<and> hash P h D s p a c w =
        Inl (Error (if P then ''Invariant failed''
                    else ''Invariant failed: SIG_DEADLINE_OUT_OF_RANGE'')))
   \<and> (deadline (s p) \<le> MaxSigDeadline \<and> MaxUnorderedNonce < nonce (s p) \<longrightarrow>
      getPermitTransferData P D s p a c w =
        Inl (Error (if P then ''Invariant failed''
                    else ''Invariant failed: NONCE_OUT_OF_RANGE''))
      \<and> getPermitBatchTransferData P D s p a c w =
        Inl (Error (if P then ''Invariant failed''
                    else ''Invariant failed: NONCE_OUT_OF_RANGE''))
      \<and> getPermitData P D s p a c w =
        Inl (Error (if P then ''Invariant failed''
                    else ''Invariant failed: NONCE_OUT_OF_RANGE''))
      \<and> hash P h D s p a c w =
        Inl (Error (if P then ''Invariant failed''
                    else ''Invariant failed: NONCE_OUT_OF_RANGE'')))
   \<and> (deadline (s p) \<le> MaxSigDeadline \<and> nonce (s p) \<le> MaxUnorderedNonce
        \<and> \<not> amounts_in_range (permitted (s p)) \<longrightarrow>
      getPermitData P D s p a c w =
        Inl (Error (if P then ''Invariant failed''
                    else ''Invariant failed: AMOUNT_OUT_OF_RANGE''))
      \<and> hash P h D s p a c w =
        Inl (Error (if P then ''Invariant failed''
                    else ''Invariant failed: AMOUNT_OUT_OF_RANGE'')))"
proof (intro conjI impI)
  let ?e = "Error (if P then ''Invariant failed''
                   else ''Invariant failed: SIG_DEADLINE_OUT_OF_RANGE'')"
  assume dl: "MaxSigDeadline < deadline (s p)"
  show "getPermitTransferData P D s p a c w = Inl ?e"
    using dl by (rule single_deadline_fault)
  show "getPermitBatchTransferData P D s p a c w = Inl ?e"
    using dl by (rule batch_deadline_fault)
  show g: "getPermitData P D s p a c w = Inl ?e"
    using dl by (simp add: getPermitData_def single_deadline_fault batch_deadline_fault)
  show "hash P h D s p a c w = Inl ?e"
    using g by (rule hash_of_fault)
next
  let ?e = "Error (if P then ''Invariant failed''
                   else ''Invariant failed: NONCE_OUT_OF_RANGE'')"
  assume "deadline (s p) \<le> MaxSigDeadline \<and> MaxUnorderedNonce < nonce (s p)"
  then have dl: "deadline (s p) \<le> MaxSigDeadline" and nc: "MaxUnorderedNonce < nonce (s p)"
    by simp_all
  show "getPermitTransferData P D s p a c w = Inl ?e"
    using dl nc by (rule single_nonce_fault)
  show "getPermitBatchTransferData P D s p a c w = Inl ?e"
    using dl nc by (rule batch_nonce_fault)
  show g: "getPermitData P D s p a c w = Inl ?e"
    using dl nc by (simp add: getPermitData_def single_nonce_fault batch_nonce_fault)
  show "hash P h D s p a c w = Inl ?e"
    using g by (rule hash_of_fault)
next
  let ?e = "Error (if P then ''Invariant failed''
                   else ''Invariant failed: AMOUNT_OUT_OF_RANGE'')"
  assume "deadline (s p) \<le> MaxSigDeadline \<and> nonce (s p) \<le> MaxUnorderedNonce
        \<and> \<not> amounts_in_range (permitted (s p))"
  then have dl: "deadline (s p) \<le> MaxSigDeadline" and nc: "nonce (s p) \<le> MaxUnorderedNonce"
    and am: "\<not> amounts_in_range (permitted (s p))"
    by simp_all
  show g: "getPermitData P D s p a c w = Inl ?e"
  proof (cases "permitted (s p)")
    case (Struct t)
    then have "getPermitData P D s p a c w = getPermitTransferData P D s p a c w"
      by (simp add: getPermitData_Struct)
    moreover from am Struct have "MaxSignatureTransferAmount < amount t"
      by (simp add: amounts_in_range_def)
    ultimately show ?thesis
      using dl nc Struct by (simp add: single_amount_fault)
  next
    case (Array ts)
    then have "getPermitData P D s p a c w = getPermitBatchTransferData P D s p a c w"
      by (simp add: getPermitData_Array)
    moreover from am Array
    have "\<not> list_all (\<lambda>t. amount t \<le> MaxSignatureTransferAmount) ts"
      by (simp add: amounts_in_range_def)
    ultimately show ?thesis
      using dl nc Array by (simp add: batch_amount_fault)
  qed
  show "hash P h D s p a c w = Inl ?e"
    using g by (rule hash_of_fault)
qed

text \<open>
  In a build that keeps the messages: a permit with deadline and nonce both out of
  range fails with the deadline message, a batch permit with nonce and amount both out
  of range with the nonce message, and a batch permit with only an amount out of range
  with the amount message.
\<close>

theorem C10_fault_precedence_witness:
  "getPermitTransferData False Pair
     (store_of (example_permit
        \<lparr>nonce := MaxUnorderedNonce + 1, deadline := MaxSigDeadline + 1\<rparr>))
     0 ''0xCCC'' (1::nat) None = Inl (Error ''Invariant failed: SIG_DEADLINE_OUT_OF_RANGE'')
   \<and> getPermitBatchTransferData False Pair
     (store_of (example_batch_permit
        \<lparr>permitted := Array [\<lparr>token = ''0xAAA'', amount = MaxSignatureTransferAmount + 1\<rparr>],
         nonce := MaxUnorderedNonce + 1\<rparr>))
     0 ''0xCCC'' (1::nat) None = Inl (Error ''Invariant failed: NONCE_OUT_OF_RANGE'')
   \<and> hash False primaryType Pair
     (store_of (example_batch_permit
        \<lparr>permitted := Array [\<lparr>token = ''0xAAA'', amount = MaxSignatureTransferAmount + 1\<rparr>]\<rparr>))
     0 ''0xCCC'' (1::nat) None = Inl (Error ''Invariant failed: AMOUNT_OUT_OF_RANGE'')"
proof -
  let ?dn = "store_of (example_permit
        \<lparr>nonce := MaxUnorderedNonce + 1, deadline := MaxSigDeadline + 1\<rparr>)"
  let ?na = "store_of (example_batch_permit
        \<lparr>permitted := Array [\<lparr>token = ''0xAAA'', amount = MaxSignatureTransferAmount + 1\<rparr>],
         nonce := MaxUnorderedNonce + 1\<rparr>)"
  let ?am = "store_of (example_batch_permit
        \<lparr>permitted := Array [\<lparr>token = ''0xAAA'', amount = MaxSignatureTransferAmount + 1\<rparr>]\<rparr>)"
  have 1: "getPermitTransferData False Pair ?dn 0 ''0xCCC'' (1::nat) None
      = Inl (Error ''Invariant failed: SIG_DEADLINE_OUT_OF_RANGE'')"
    using C10_fault_precedence [of ?dn 0 False Pair "''0xCCC''" "1::nat" None primaryType,
        THEN conjunct1]
    by (simp add: store_of_def example_permit_def)
  have 2: "getPermitBatchTransferData False Pair ?na 0 ''0xCCC'' (1::nat) None
      = Inl (Error ''Invariant failed: NONCE_OUT_OF_RANGE'')"
    using C10_fault_precedence [of ?na 0 False Pair "''0xCCC''" "1::nat" None primaryType,
        THEN conjunct2, THEN conjunct1]
    by (simp add: store_of_def example_batch_permit_def MaxSigDeadline_def)
  have 3: "hash False primaryType Pair ?am 0 ''0xCCC'' (1::nat) None
      = Inl (Error ''Invariant failed: AMOUNT_OUT_OF_RANGE'')"
    using C10_fault_precedence [of ?am 0 False Pair "''0xCCC''" "1::nat" None primaryType,
        THEN conjunct2, THEN conjunct2]
    by (simp add: store_of_def example_batch_permit_def MaxSigDeadline_def
        MaxUnorderedNonce_def amounts_in_range_def)
  from 1 2 3 show ?thesis by (intro conjI)
qed

subsection \<open>Dispatch on the shape of \<open>permitted\<close>\<close>

text \<open>
  Claim C3 says that a batch permit with one entry gets the batch declarations and never
  the single-permit ones. The batch builder spreads \<^verbatim>\<open>witness.witnessType\<close> into \<open>types\<close>
  as it is: with a witness whose own type mapping is the single-permit schema, the
  \<open>types\<close> returned for the one-entry batch permit declare \<^verbatim>\<open>PermitTransferFrom\<close> with
  the members of the single-permit struct.
\<close>

theorem C3_single_declaration_counterexample:
  "permitted (store_of example_batch_permit 0) = Array [\<lparr>token = ''0xAAA'', amount = 1000\<rparr>]
   \<and> \<not> isl (getPermitData False Pair (store_of example_batch_permit) 0 ''0xCCC'' (1::nat)
            (Some example_single_declaring_witness))
   \<and> PermitTransferFromData.types
        (fst (projr (getPermitData False Pair (store_of example_batch_permit) 0 ''0xCCC''
           (1::nat) (Some example_single_declaring_witness)))) ''PermitTransferFrom''
       = Some [\<lparr>name = ''permitted'', type = ''TokenPermissions''\<rparr>,
               \<lparr>name = ''spender'', type = ''address''\<rparr>,
               \<lparr>name = ''nonce'', type = ''uint256''\<rparr>,
               \<lparr>name = ''deadline'', type = ''uint256''\<rparr>]"
  by (simp add: getPermitData_def isPermitTransferFrom_def getPermitBatchTransferData_def
      invariant_def validateTokenPermissions_def store_of_def example_batch_permit_def
      example_single_declaring_witness_def PERMIT_TRANSFER_FROM_TYPES_def
      MaxSigDeadline_def MaxUnorderedNonce_def MaxSignatureTransferAmount_def)

text \<open>
  Claim C3, amended. \<^verbatim>\<open>getPermitData\<close> and \<^verbatim>\<open>hash\<close> treat a permit as batch exactly when
  its \<open>permitted\<close> is an array. For an array of any length, one included, the outcome of
  \<^verbatim>\<open>getPermitData\<close> is that of the batch builder, and \<^verbatim>\<open>hash\<close> hands the batch builder's
  result to the primitive under a batch primary-type name, never a single one; where the
  permit is within its bounds there is a result, whose \<open>types\<close> declare the batch primary
  struct with \<open>permitted\<close> typed \<^verbatim>\<open>TokenPermissions[]\<close>, and in which the single-permit
  names \<^verbatim>\<open>PermitTransferFrom\<close> and \<^verbatim>\<open>PermitWitnessTransferFrom\<close> are declared only as the
  witness's own \<^verbatim>\<open>witnessType\<close> declares them, and not at all without a witness. For a
  struct the same holds with the single builder, the single names and
  \<^verbatim>\<open>TokenPermissions\<close>, and with the batch names left to the witness.
\<close>

theorem C3_dispatch_on_array:
  "(\<forall>ts. permitted (s p) = Array ts \<longrightarrow>
      getPermitData P D s p a c w = getPermitBatchTransferData P D s p a c w
      \<and> hash P h D s p a c w =
          (case getPermitBatchTransferData P D s p a c w of
             Inl e \<Rightarrow> Inl e
           | Inr (d, s') \<Rightarrow>
               Inr (h \<lparr>TypedDataDefinition.domain = PermitTransferFromData.domain d,
                       types = PermitTransferFromData.types d,
                       primaryType =
                         (if w \<noteq> None then ''PermitBatchWitnessTransferFrom''
                          else ''PermitBatchTransferFrom''),
                       message = s' (values d)\<rparr>, s'))
      \<and> (permit_in_range (s p) \<longrightarrow>
           (\<exists>d s'. getPermitData P D s p a c w = Inr (d, s')
              \<and> PermitTransferFromData.types d
                   (if w \<noteq> None then ''PermitBatchWitnessTransferFrom''
                    else ''PermitBatchTransferFrom'')
                 = Some ([\<lparr>name = ''permitted'', type = ''TokenPermissions[]''\<rparr>,
                          \<lparr>name = ''spender'', type = ''address''\<rparr>,
                          \<lparr>name = ''nonce'', type = ''uint256''\<rparr>,
                          \<lparr>name = ''deadline'', type = ''uint256''\<rparr>]
                         @ (case w of
                              None \<Rightarrow> []
                            | Some x \<Rightarrow> [\<lparr>name = ''witness'', type = witnessTypeName x\<rparr>]))
              \<and> PermitTransferFromData.types d ''PermitTransferFrom''
                 = (case w of None \<Rightarrow> None | Some x \<Rightarrow> witnessType x ''PermitTransferFrom'')
              \<and> PermitTransferFromData.types d ''PermitWitnessTransferFrom''
                 = (case w of
                      None \<Rightarrow> None
                    | Some x \<Rightarrow> witnessType x ''PermitWitnessTransferFrom''))))
   \<and> (\<forall>t. permitted (s p) = Struct t \<longrightarrow>
      getPermitData P D s p a c w = getPermitTransferData P D s p a c w
      \<and> hash P h D s p a c w =
          (case getPermitTransferData P D s p a c w of
             Inl e \<Rightarrow> Inl e
           | Inr (d, s') \<Rightarrow>
               Inr (h \<lparr>TypedDataDefinition.domain = PermitTransferFromData.domain d,
                       types = PermitTransferFromData.types d,
                       primaryType =
                         (if w \<noteq> None then ''PermitWitnessTransferFrom''
                          else ''PermitTransferFrom''),
                       message = s' (values d)\<rparr>, s'))
      \<and> (permit_in_range (s p) \<longrightarrow>
           (\<exists>d s'. getPermitData P D s p a c w = Inr (d, s')
              \<and> PermitTransferFromData.types d
                   (if w \<noteq> None then ''PermitWitnessTransferFrom'' else ''PermitTransferFrom'')
                 = Some ([\<lparr>name = ''permitted'', type = ''TokenPermissions''\<rparr>,
                          \<lparr>name = ''spender'', type = ''address''\<rparr>,
                          \<lparr>name = ''nonce'', type = ''uint256''\<rparr>,
                          \<lparr>name = ''deadline'', type = ''uint256''\<rparr>]
                         @ (case w of
                              None \<Rightarrow> []
                            | Some x \<Rightarrow> [\<lparr>name = ''witness'', type = witnessTypeName x\<rparr>]))
              \<and> PermitTransferFromData.types d ''PermitBatchTransferFrom''
                 = (case w of
                      None \<Rightarrow> None
                    | Some x \<Rightarrow> witnessType x ''PermitBatchTransferFrom'')
              \<and> PermitTransferFromData.types d ''PermitBatchWitnessTransferFrom''
                 = (case w of
                      None \<Rightarrow> None
                    | Some x \<Rightarrow> witnessType x ''PermitBatchWitnessTransferFrom''))))"
proof (intro conjI allI impI)
  fix ts
  assume ar: "permitted (s p) = Array ts"
  show g: "getPermitData P D s p a c w = getPermitBatchTransferData P D s p a c w"
    using ar by (rule getPermitData_Array)
  show "hash P h D s p a c w =
          (case getPermitBatchTransferData P D s p a c w of
             Inl e \<Rightarrow> Inl e
           | Inr (d, s') \<Rightarrow>
               Inr (h \<lparr>TypedDataDefinition.domain = PermitTransferFromData.domain d,
                       types = PermitTransferFromData.types d,
                       primaryType =
                         (if w \<noteq> None then ''PermitBatchWitnessTransferFrom''
                          else ''PermitBatchTransferFrom''),
                       message = s' (values d)\<rparr>, s'))"
    using ar by (rule hash_Array)
  assume "permit_in_range (s p)"
  with ar have dl: "deadline (s p) \<le> MaxSigDeadline"
    and nc: "nonce (s p) \<le> MaxUnorderedNonce"
    and am: "list_all (\<lambda>t. amount t \<le> MaxSignatureTransferAmount) ts"
    by (simp_all add: permit_in_range_def amounts_in_range_def)
  note r = batch_result [of s p ts P D a c w, OF dl nc ar am]
  show "\<exists>d s'. getPermitData P D s p a c w = Inr (d, s')
              \<and> PermitTransferFromData.types d
                   (if w \<noteq> None then ''PermitBatchWitnessTransferFrom''
                    else ''PermitBatchTransferFrom'')
                 = Some ([\<lparr>name = ''permitted'', type = ''TokenPermissions[]''\<rparr>,
                          \<lparr>name = ''spender'', type = ''address''\<rparr>,
                          \<lparr>name = ''nonce'', type = ''uint256''\<rparr>,
                          \<lparr>name = ''deadline'', type = ''uint256''\<rparr>]
                         @ (case w of
                              None \<Rightarrow> []
                            | Some x \<Rightarrow> [\<lparr>name = ''witness'', type = witnessTypeName x\<rparr>]))
              \<and> PermitTransferFromData.types d ''PermitTransferFrom''
                 = (case w of None \<Rightarrow> None | Some x \<Rightarrow> witnessType x ''PermitTransferFrom'')
              \<and> PermitTransferFromData.types d ''PermitWitnessTransferFrom''
                 = (case w of
                      None \<Rightarrow> None
                    | Some x \<Rightarrow> witnessType x ''PermitWitnessTransferFrom'')"
    unfolding g r
    by (cases w) (simp_all add: PERMIT_BATCH_TRANSFER_FROM_TYPES_def map_add_def)
next
  fix t
  assume st: "permitted (s p) = Struct t"
  show g: "getPermitData P D s p a c w = getPermitTransferData P D s p a c w"
    using st by (rule getPermitData_Struct)
  show "hash P h D s p a c w =
          (case getPermitTransferData P D s p a c w of
             Inl e \<Rightarrow> Inl e
           | Inr (d, s') \<Rightarrow>
               Inr (h \<lparr>TypedDataDefinition.domain = PermitTransferFromData.domain d,
                       types = PermitTransferFromData.types d,
                       primaryType =
                         (if w \<noteq> None then ''PermitWitnessTransferFrom''
                          else ''PermitTransferFrom''),
                       message = s' (values d)\<rparr>, s'))"
    using st by (rule hash_Struct)
  assume "permit_in_range (s p)"
  with st have dl: "deadline (s p) \<le> MaxSigDeadline"
    and nc: "nonce (s p) \<le> MaxUnorderedNonce"
    and am: "amount t \<le> MaxSignatureTransferAmount"
    by (simp_all add: permit_in_range_def amounts_in_range_def)
  note r = single_result [of s p t P D a c w, OF dl nc st am]
  show "\<exists>d s'. getPermitData P D s p a c w = Inr (d, s')
              \<and> PermitTransferFromData.types d
                   (if w \<noteq> None then ''PermitWitnessTransferFrom'' else ''PermitTransferFrom'')
                 = Some ([\<lparr>name = ''permitted'', type = ''TokenPermissions''\<rparr>,
                          \<lparr>name = ''spender'', type = ''address''\<rparr>,
                          \<lparr>name = ''nonce'', type = ''uint256''\<rparr>,
                          \<lparr>name = ''deadline'', type = ''uint256''\<rparr>]
                         @ (case w of
                              None \<Rightarrow> []
                            | Some x \<Rightarrow> [\<lparr>name = ''witness'', type = witnessTypeName x\<rparr>]))
              \<and> PermitTransferFromData.types d ''PermitBatchTransferFrom''
                 = (case w of
                      None \<Rightarrow> None
                    | Some x \<Rightarrow> witnessType x ''PermitBatchTransferFrom'')
              \<and> PermitTransferFromData.types d ''PermitBatchWitnessTransferFrom''
                 = (case w of
                      None \<Rightarrow> None
                    | Some x \<Rightarrow> witnessType x ''PermitBatchWitnessTransferFrom'')"
    unfolding g r
    by (cases w)
      (simp_all add: PERMIT_TRANSFER_FROM_TYPES_def map_add_def split: option.splits)
qed

text \<open>
  The batch permit whose \<open>permitted\<close> has exactly one entry and the single permit with
  the same entry, both without a witness, with the projection to the primary type in
  place of the primitive: the first gets the batch struct and the batch name and no
  declaration of \<^verbatim>\<open>PermitTransferFrom\<close>, the second the single struct and the single
  name and no declaration of \<^verbatim>\<open>PermitBatchTransferFrom\<close>.
\<close>

theorem C3_dispatch_on_array_witness:
  "(\<exists>d s'. getPermitData False Pair (store_of example_batch_permit) 0 ''0xCCC'' (1::nat) None
             = Inr (d, s')
      \<and> PermitTransferFromData.types d ''PermitBatchTransferFrom''
          = Some [\<lparr>name = ''permitted'', type = ''TokenPermissions[]''\<rparr>,
                  \<lparr>name = ''spender'', type = ''address''\<rparr>,
                  \<lparr>name = ''nonce'', type = ''uint256''\<rparr>,
                  \<lparr>name = ''deadline'', type = ''uint256''\<rparr>]
      \<and> PermitTransferFromData.types d ''PermitTransferFrom'' = None
      \<and> hash False primaryType Pair (store_of example_batch_permit) 0 ''0xCCC'' (1::nat) None
          = Inr (''PermitBatchTransferFrom'', s'))
   \<and> (\<exists>d s'. getPermitData False Pair (store_of example_permit) 0 ''0xCCC'' (1::nat) None
             = Inr (d, s')
      \<and> PermitTransferFromData.types d ''PermitTransferFrom''
          = Some [\<lparr>name = ''permitted'', type = ''TokenPermissions''\<rparr>,
                  \<lparr>name = ''spender'', type = ''address''\<rparr>,
                  \<lparr>name = ''nonce'', type = ''uint256''\<rparr>,
                  \<lparr>name = ''deadline'', type = ''uint256''\<rparr>]
      \<and> PermitTransferFromData.types d ''PermitBatchTransferFrom'' = None
      \<and> hash False primaryType Pair (store_of example_permit) 0 ''0xCCC'' (1::nat) None
          = Inr (''PermitTransferFrom'', s'))"
proof (rule conjI)
  let ?s = "store_of example_batch_permit"
  have ar: "permitted (?s 0) = Array [\<lparr>token = ''0xAAA'', amount = 1000\<rparr>]"
    by (simp add: store_of_def example_batch_permit_def)
  have rg: "permit_in_range (?s 0)"
    by (simp add: permit_in_range_def amounts_in_range_def store_of_def
        example_batch_permit_def MaxSigDeadline_def MaxUnorderedNonce_def
        MaxSignatureTransferAmount_def)
  note c3 = C3_dispatch_on_array
    [of ?s 0 False Pair "''0xCCC''" "1::nat" None primaryType,
     THEN conjunct1, THEN spec, THEN mp, OF ar]
  from c3 [THEN conjunct2, THEN conjunct2, THEN mp, OF rg]
  obtain d s' where r: "getPermitData False Pair ?s 0 ''0xCCC'' (1::nat) None = Inr (d, s')"
    and t1: "PermitTransferFromData.types d ''PermitBatchTransferFrom''
          = Some [\<lparr>name = ''permitted'', type = ''TokenPermissions[]''\<rparr>,
                  \<lparr>name = ''spender'', type = ''address''\<rparr>,
                  \<lparr>name = ''nonce'', type = ''uint256''\<rparr>,
                  \<lparr>name = ''deadline'', type = ''uint256''\<rparr>]"
    and t2: "PermitTransferFromData.types d ''PermitTransferFrom'' = None"
    by auto
  from c3 [THEN conjunct1] r
  have b: "getPermitBatchTransferData False Pair ?s 0 ''0xCCC'' (1::nat) None = Inr (d, s')"
    by simp
  from c3 [THEN conjunct2, THEN conjunct1] b
  have "hash False primaryType Pair ?s 0 ''0xCCC'' (1::nat) None
      = Inr (''PermitBatchTransferFrom'', s')"
    by simp
  with r t1 t2
  show "\<exists>d s'. getPermitData False Pair ?s 0 ''0xCCC'' (1::nat) None = Inr (d, s')
      \<and> PermitTransferFromData.types d ''PermitBatchTransferFrom''
          = Some [\<lparr>name = ''permitted'', type = ''TokenPermissions[]''\<rparr>,
                  \<lparr>name = ''spender'', type = ''address''\<rparr>,
                  \<lparr>name = ''nonce'', type = ''uint256''\<rparr>,
                  \<lparr>name = ''deadline'', type = ''uint256''\<rparr>]
      \<and> PermitTransferFromData.types d ''PermitTransferFrom'' = None
      \<and> hash False primaryType Pair ?s 0 ''0xCCC'' (1::nat) None
          = Inr (''PermitBatchTransferFrom'', s')"
    by (intro exI [of _ d] exI [of _ s']) simp
next
  let ?s = "store_of example_permit"
  have st: "permitted (?s 0) = Struct \<lparr>token = ''0xAAA'', amount = 1000\<rparr>"
    by (simp add: store_of_def example_permit_def)
  have rg: "permit_in_range (?s 0)"
    by (simp add: permit_in_range_def amounts_in_range_def store_of_def example_permit_def
        MaxSigDeadline_def MaxUnorderedNonce_def MaxSignatureTransferAmount_def)
  note c3 = C3_dispatch_on_array
    [of ?s 0 False Pair "''0xCCC''" "1::nat" None primaryType,
     THEN conjunct2, THEN spec, THEN mp, OF st]
  from c3 [THEN conjunct2, THEN conjunct2, THEN mp, OF rg]
  obtain d s' where r: "getPermitData False Pair ?s 0 ''0xCCC'' (1::nat) None = Inr (d, s')"
    and t1: "PermitTransferFromData.types d ''PermitTransferFrom''
          = Some [\<lparr>name = ''permitted'', type = ''TokenPermissions''\<rparr>,
                  \<lparr>name = ''spender'', type = ''address''\<rparr>,
                  \<lparr>name = ''nonce'', type = ''uint256''\<rparr>,
                  \<lparr>name = ''deadline'', type = ''uint256''\<rparr>]"
    and t2: "PermitTransferFromData.types d ''PermitBatchTransferFrom'' = None"
    by auto
  from c3 [THEN conjunct1] r
  have b: "getPermitTransferData False Pair ?s 0 ''0xCCC'' (1::nat) None = Inr (d, s')"
    by simp
  from c3 [THEN conjunct2, THEN conjunct1] b
  have "hash False primaryType Pair ?s 0 ''0xCCC'' (1::nat) None
      = Inr (''PermitTransferFrom'', s')"
    by simp
  with r t1 t2
  show "\<exists>d s'. getPermitData False Pair ?s 0 ''0xCCC'' (1::nat) None = Inr (d, s')
      \<and> PermitTransferFromData.types d ''PermitTransferFrom''
          = Some [\<lparr>name = ''permitted'', type = ''TokenPermissions''\<rparr>,
                  \<lparr>name = ''spender'', type = ''address''\<rparr>,
                  \<lparr>name = ''nonce'', type = ''uint256''\<rparr>,
                  \<lparr>name = ''deadline'', type = ''uint256''\<rparr>]
      \<and> PermitTransferFromData.types d ''PermitBatchTransferFrom'' = None
      \<and> hash False primaryType Pair ?s 0 ''0xCCC'' (1::nat) None
          = Inr (''PermitTransferFrom'', s')"
    by (intro exI [of _ d] exI [of _ s']) simp
qed

subsection \<open>Determinism\<close>

text \<open>
  Claim C9. \<^verbatim>\<open>hash\<close> is deterministic. Of the store it reads only the properties of the
  permit it is given: two calls in the same build on permit objects with the same
  properties, whichever objects they are and whatever else the stores hold, with the
  same primitive, verifying contract, chain id and witness, have the same outcome, the
  same hash string or the same fault. This holds although a call may write into the
  permit: a second call with the same arguments on the store the first one left
  returns the same string and leaves the store as it found it.
\<close>

theorem C9_hash_deterministic:
  "(s1 p1 = s2 p2 \<longrightarrow>
      map_sum id fst (hash P h D s1 p1 a c w) = map_sum id fst (hash P h D s2 p2 a c w))
   \<and> (hash P h D s p a c w = Inr (r, s') \<longrightarrow> hash P h D s' p a c w = Inr (r, s'))"
proof (intro conjI impI)
  assume "s1 p1 = s2 p2"
  then show "map_sum id fst (hash P h D s1 p1 a c w) = map_sum id fst (hash P h D s2 p2 a c w)"
    by (rule hash_reads_permit_only)
next
  assume "hash P h D s p a c w = Inr (r, s')"
  then show "hash P h D s' p a c w = Inr (r, s')"
    by (rule hash_again)
qed

text \<open>
  Two stores that hold the example permit at different references, 0 in the one and 5
  in the other, and batch permits elsewhere; and the batch permit hashed twice with a
  witness, the second time on the permit the first call has written into. The
  primitive is replaced by the projection to the spender of the message.
\<close>

theorem C9_hash_deterministic_witness:
  "map_sum id fst
     (hash False (\<lambda>td. spender (message td)) Pair (store_of example_permit) 0 ''0xCCC''
        (1::nat) None)
     = map_sum id fst
         (hash False (\<lambda>td. spender (message td)) Pair
            ((store_of example_batch_permit)(5 := example_permit)) 5 ''0xCCC'' (1::nat) None)
   \<and> map_sum id fst
       (hash False (\<lambda>td. spender (message td)) Pair (store_of example_permit) 0 ''0xCCC''
          (1::nat) None) = Inr ''0xBBB''
   \<and> (\<exists>r s'. hash False primaryType Pair (store_of example_batch_permit) 0 ''0xCCC'' (1::nat)
                (Some example_witness) = Inr (r, s')
        \<and> hash False primaryType Pair s' 0 ''0xCCC'' (1::nat) (Some example_witness)
            = Inr (r, s')
        \<and> s' 0 \<noteq> store_of example_batch_permit 0)"
proof (intro conjI)
  let ?h = "\<lambda>td :: (string \<times> nat, nat) TypedDataDefinition. spender (message td)"
  have eq: "store_of example_permit 0
      = ((store_of example_batch_permit)(5 := example_permit)) 5"
    by (simp add: store_of_def)
  from C9_hash_deterministic
    [of "store_of example_permit" 0 "(store_of example_batch_permit)(5 := example_permit)" 5
      False ?h Pair "''0xCCC''" "1::nat" None, THEN conjunct1, THEN mp, OF eq]
  show "map_sum id fst (hash False ?h Pair (store_of example_permit) 0 ''0xCCC'' (1::nat) None)
     = map_sum id fst
         (hash False ?h Pair ((store_of example_batch_permit)(5 := example_permit)) 5
            ''0xCCC'' (1::nat) None)" .
  show "map_sum id fst (hash False ?h Pair (store_of example_permit) 0 ''0xCCC'' (1::nat) None)
      = Inr ''0xBBB''"
    by (simp add: hash_def isPermitTransferFrom_def getPermitTransferData_def invariant_def
        validateTokenPermissions_def store_of_def example_permit_def MaxSigDeadline_def
        MaxUnorderedNonce_def MaxSignatureTransferAmount_def)
  have "permit_in_range (store_of example_batch_permit 0)"
    by (simp add: permit_in_range_def amounts_in_range_def store_of_def
        example_batch_permit_def MaxSigDeadline_def MaxUnorderedNonce_def
        MaxSignatureTransferAmount_def)
  then obtain d s' where g: "getPermitData False Pair (store_of example_batch_permit) 0
      ''0xCCC'' (1::nat) (Some example_witness) = Inr (d, s')"
    using getPermitData_returns_iff
      [of False Pair "store_of example_batch_permit" 0 "''0xCCC''" "1::nat"
        "Some example_witness"]
    by auto
  then obtain r where h1: "hash False primaryType Pair (store_of example_batch_permit) 0
      ''0xCCC'' (1::nat) (Some example_witness) = Inr (r, s')"
    by (simp add: hash_of_result)
  from C9_hash_deterministic
    [of _ _ _ _ False primaryType Pair "''0xCCC''" "1::nat" "Some example_witness"
      "store_of example_batch_permit" 0 r s', THEN conjunct2, THEN mp, OF h1]
  have h2: "hash False primaryType Pair s' 0 ''0xCCC'' (1::nat) (Some example_witness)
      = Inr (r, s')" .
  from getPermitData_store [OF g]
  have "s' 0 \<noteq> store_of example_batch_permit 0"
    by (simp add: store_of_def example_batch_permit_def)
  with h1 h2 show "\<exists>r s'. hash False primaryType Pair (store_of example_batch_permit) 0
        ''0xCCC'' (1::nat) (Some example_witness) = Inr (r, s')
        \<and> hash False primaryType Pair s' 0 ''0xCCC'' (1::nat) (Some example_witness)
            = Inr (r, s')
        \<and> s' 0 \<noteq> store_of example_batch_permit 0"
    by (intro exI [of _ r] exI [of _ s']) simp
qed

end
